theory Spec2Isabelle
  imports Main "HOL-Library.AList"
begin

section \<open>Python values, dictionaries and exceptions\<close>

text \<open>
  The module \<^verbatim>\<open>saltext/azurerm/modules/azurerm_compute.py\<close> moves plain Python data
  between its caller and the Azure SDK. A hashable dictionary key is kept apart from a value:
  Python hashes \<^verbatim>\<open>True\<close> and \<^verbatim>\<open>1\<close> to the same key, and lists and dictionaries
  are unhashable.
\<close>

datatype key = KNone | KInt int | KStr string

datatype pyval =
    PNone
  | PBool bool
  | PInt int
  | PStr string
  | PList "pyval list"
  | PDict "(key \<times> pyval) list"

text \<open>A dictionary in insertion order; \<^verbatim>\<open>**kwargs\<close> is a dictionary whose keys are strings.\<close>

type_synonym dict = "(key \<times> pyval) list"
type_synonym kwargs = "(string \<times> pyval) list"

text \<open>
  The exception classes the module imports from \<^verbatim>\<open>azure.core.exceptions\<close>, the builtin
  ones its own statements can raise, and the two the client factory raises in the tests.
  An exception carries its string form \<^verbatim>\<open>str(exc)\<close>.
\<close>

datatype exn_class =
    ResourceNotFoundError
  | HttpResponseError
  | SerializationError
  | TypeError
  | KeyError
  | AttributeError
  | SaltSystemExit
  | SaltInvocationError

datatype exn = Exn exn_class string

fun exn_cls :: "exn \<Rightarrow> exn_class" where
  "exn_cls (Exn c m) = c"

fun str_exn :: "exn \<Rightarrow> string" where
  "str_exn (Exn c m) = m"

text \<open>
  In \<^verbatim>\<open>azure.core.exceptions\<close>, \<^verbatim>\<open>ResourceNotFoundError\<close> derives from
  \<^verbatim>\<open>HttpResponseError\<close>; \<^verbatim>\<open>SerializationError\<close> derives from \<^verbatim>\<open>ValueError\<close>.
\<close>

fun issubclass :: "exn_class \<Rightarrow> exn_class \<Rightarrow> bool" where
  "issubclass ResourceNotFoundError HttpResponseError = True"
| "issubclass c d = (c = d)"

text \<open>\<^verbatim>\<open>except (A, B) as exc\<close> handles \<open>exc\<close> when \<open>isinstance exc [A, B]\<close>.\<close>

definition isinstance :: "exn \<Rightarrow> exn_class list \<Rightarrow> bool" where
  "isinstance exc classes = list_ex (issubclass (exn_cls exc)) classes"

text \<open>\<^verbatim>\<open>d[k]\<close> for a string \<open>k\<close>: a missing key raises \<^verbatim>\<open>KeyError\<close>, whose string form is the repr of the key.\<close>

definition getitem :: "dict \<Rightarrow> string \<Rightarrow> exn + pyval" where
  "getitem d k =
     (case map_of d (KStr k) of
        None \<Rightarrow> Inl (Exn KeyError ([CHR 0x27] @ k @ [CHR 0x27]))
      | Some v \<Rightarrow> Inr v)"

text \<open>Hashing a value that is used as a dictionary key.\<close>

fun hash_key :: "pyval \<Rightarrow> exn + key" where
  "hash_key PNone = Inr KNone"
| "hash_key (PBool b) = Inr (KInt (if b then 1 else 0))"
| "hash_key (PInt i) = Inr (KInt i)"
| "hash_key (PStr s) = Inr (KStr s)"
| "hash_key (PList xs) = Inl (Exn TypeError (''unhashable type: '' @ [CHR 0x27] @ ''list'' @ [CHR 0x27]))"
| "hash_key (PDict d) = Inl (Exn TypeError (''unhashable type: '' @ [CHR 0x27] @ ''dict'' @ [CHR 0x27]))"

text \<open>The literal \<^verbatim>\<open>{"error": msg}\<close>.\<close>

definition error_dict :: "string \<Rightarrow> pyval" where
  "error_dict msg = PDict [(KStr ''error'', PStr msg)]"

section \<open>The collaborators: host runtime, client factory, SDK\<close>

text \<open>
  The calls on the SDK client \<^verbatim>\<open>compconn\<close>, with their keyword arguments in the order of
  the source. A \<^verbatim>\<open>begin_*\<close> call stands for the chain
  \<^verbatim>\<open>vm = begin_*(...); vm.wait(); vm.result().as_dict()\<close>, which the source runs inside one
  \<^verbatim>\<open>try\<close> block.
\<close>

datatype sdk_call =
    Availability_sets_create_or_update pyval pyval pyval
  | Availability_sets_delete pyval pyval
  | Availability_sets_get pyval pyval
  | Availability_sets_list pyval
  | Availability_sets_list_available_sizes pyval pyval
  | Virtual_machines_begin_capture pyval pyval pyval
  | Virtual_machines_get pyval pyval pyval
  | Virtual_machines_begin_convert_to_managed_disks pyval pyval
  | Virtual_machines_begin_deallocate pyval pyval
  | Virtual_machines_generalize pyval pyval
  | Virtual_machines_list pyval
  | Virtual_machines_list_all
  | Virtual_machines_list_available_sizes pyval pyval
  | Virtual_machines_begin_power_off pyval pyval
  | Virtual_machines_begin_restart pyval pyval
  | Virtual_machines_begin_start pyval pyval
  | Virtual_machines_begin_redeploy pyval pyval

text \<open>
  Everything outside the module is a parameter: the two functions reached through
  \<^verbatim>\<open>__salt__\<close> (both return a mapping: the result's \<^verbatim>\<open>as_dict()\<close> or an error
  mapping), the helpers of \<^verbatim>\<open>saltext.azurerm.utils.azurerm\<close> and the SDK client.
  Each takes the state of the outside world \<open>'w\<close> and returns the new one, with either the
  exception it raised or its result. \<open>sdk\<close> returns the \<^verbatim>\<open>as_dict()\<close> form of the SDK's
  answer; \<open>sdk_paged\<close> is \<^verbatim>\<open>paged_object_to_list\<close> applied to a paged SDK call, a list
  of \<^verbatim>\<open>as_dict()\<close> forms. \<open>str_other\<close> is Python's \<^verbatim>\<open>str\<close> on values that are not
  strings.
\<close>

record 'w env =
  salt_resource_group_get :: "pyval \<Rightarrow> kwargs \<Rightarrow> 'w \<Rightarrow> (exn + dict) \<times> 'w"
  salt_virtual_machine_get :: "pyval \<Rightarrow> pyval \<Rightarrow> kwargs \<Rightarrow> 'w \<Rightarrow> (exn + dict) \<times> 'w"
  get_client :: "string \<Rightarrow> kwargs \<Rightarrow> 'w \<Rightarrow> (exn + unit) \<times> 'w"
  create_object_model :: "string \<Rightarrow> string \<Rightarrow> kwargs \<Rightarrow> 'w \<Rightarrow> (exn + pyval) \<times> 'w"
  sdk :: "sdk_call \<Rightarrow> 'w \<Rightarrow> (exn + dict) \<times> 'w"
  sdk_paged :: "sdk_call \<Rightarrow> 'w \<Rightarrow> (exn + dict list) \<times> 'w"
  str_other :: "pyval \<Rightarrow> string"

definition py_str :: "'w env \<Rightarrow> pyval \<Rightarrow> string" where
  "py_str env v = (case v of PStr s \<Rightarrow> s | _ \<Rightarrow> str_other env v)"

text \<open>
  What a run of a module function does to the outside, in order: each call with its
  arguments and what came back, \<^verbatim>\<open>log.error(msg)\<close>, and
  \<^verbatim>\<open>log_cloud_error(client, message, **kwargs)\<close>.
\<close>

datatype event =
    Salt_resource_group_get pyval kwargs "exn + dict"
  | Salt_virtual_machine_get pyval pyval kwargs "exn + dict"
  | Get_client string kwargs "exn + unit"
  | Create_object_model string string kwargs "exn + pyval"
  | Sdk sdk_call "exn + dict"
  | Sdk_paged sdk_call "exn + dict list"
  | Log_error string
  | Log_cloud_error string string kwargs

text \<open>
  The state threaded through a run: the outside world and the events so far. The two
  loggers only record their call: they change nothing else and return normally.
\<close>

type_synonym 'w st = "'w \<times> event list"

definition log_error :: "string \<Rightarrow> 'w st \<Rightarrow> 'w st" where
  "log_error msg s = (fst s, snd s @ [Log_error msg])"

definition log_cloud_error :: "string \<Rightarrow> string \<Rightarrow> kwargs \<Rightarrow> 'w st \<Rightarrow> 'w st" where
  "log_cloud_error client message kwargs s = (fst s, snd s @ [Log_cloud_error client message kwargs])"

definition call_resource_group_get ::
  "'w env \<Rightarrow> pyval \<Rightarrow> kwargs \<Rightarrow> 'w st \<Rightarrow> (exn + dict) \<times> 'w st" where
  "call_resource_group_get env resource_group kwargs s =
     (case salt_resource_group_get env resource_group kwargs (fst s) of
        (r, w) \<Rightarrow> (r, (w, snd s @ [Salt_resource_group_get resource_group kwargs r])))"

definition call_virtual_machine_get ::
  "'w env \<Rightarrow> pyval \<Rightarrow> pyval \<Rightarrow> kwargs \<Rightarrow> 'w st \<Rightarrow> (exn + dict) \<times> 'w st" where
  "call_virtual_machine_get env name resource_group kwargs s =
     (case salt_virtual_machine_get env name resource_group kwargs (fst s) of
        (r, w) \<Rightarrow> (r, (w, snd s @ [Salt_virtual_machine_get name resource_group kwargs r])))"

definition call_get_client ::
  "'w env \<Rightarrow> string \<Rightarrow> kwargs \<Rightarrow> 'w st \<Rightarrow> (exn + unit) \<times> 'w st" where
  "call_get_client env client kwargs s =
     (case get_client env client kwargs (fst s) of
        (r, w) \<Rightarrow> (r, (w, snd s @ [Get_client client kwargs r])))"

definition call_create_object_model ::
  "'w env \<Rightarrow> string \<Rightarrow> string \<Rightarrow> kwargs \<Rightarrow> 'w st \<Rightarrow> (exn + pyval) \<times> 'w st" where
  "call_create_object_model env client model kwargs s =
     (case create_object_model env client model kwargs (fst s) of
        (r, w) \<Rightarrow> (r, (w, snd s @ [Create_object_model client model kwargs r])))"

definition call_sdk :: "'w env \<Rightarrow> sdk_call \<Rightarrow> 'w st \<Rightarrow> (exn + dict) \<times> 'w st" where
  "call_sdk env c s =
     (case sdk env c (fst s) of (r, w) \<Rightarrow> (r, (w, snd s @ [Sdk c r])))"

definition call_sdk_paged :: "'w env \<Rightarrow> sdk_call \<Rightarrow> 'w st \<Rightarrow> (exn + dict list) \<times> 'w st" where
  "call_sdk_paged env c s =
     (case sdk_paged env c (fst s) of (r, w) \<Rightarrow> (r, (w, snd s @ [Sdk_paged c r])))"

section \<open>The module functions\<close>

subsection \<open>Availability sets\<close>

text \<open>
  The loop of \<^verbatim>\<open>availability_set_create_or_update\<close> (lines 100 to 106) over the names in
  \<^verbatim>\<open>kwargs["virtual_machines"]\<close>, with \<open>vm_list\<close> as its accumulator. A lookup that
  raises, and a result with neither \<^verbatim>\<open>"error"\<close> nor \<^verbatim>\<open>"id"\<close>, end the loop with the
  exception.
\<close>

fun resolve_virtual_machines ::
  "'w env \<Rightarrow> pyval \<Rightarrow> kwargs \<Rightarrow> pyval list \<Rightarrow> pyval list \<Rightarrow> 'w st \<Rightarrow> (exn + pyval list) \<times> 'w st" where
  "resolve_virtual_machines env resource_group kwargs [] vm_list s = (Inr vm_list, s)"
| "resolve_virtual_machines env resource_group kwargs (vm_name # rest) vm_list s =
     (case call_virtual_machine_get env vm_name resource_group kwargs s of
        (Inl exc, s1) \<Rightarrow> (Inl exc, s1)
      | (Inr vm_instance, s1) \<Rightarrow>
          if map_of vm_instance (KStr ''error'') = None
          then (case getitem vm_instance ''id'' of
                  Inl exc \<Rightarrow> (Inl exc, s1)
                | Inr vm_id \<Rightarrow>
                    resolve_virtual_machines env resource_group kwargs rest
                      (vm_list @ [PDict [(KStr ''id'', PStr (py_str env vm_id))]]) s1)
          else resolve_virtual_machines env resource_group kwargs rest vm_list s1)"

text \<open>
  Lines 98 to 107: only a list under \<^verbatim>\<open>"virtual_machines"\<close> is resolved
  (\<^verbatim>\<open>kwargs.get\<close> gives \<^verbatim>\<open>None\<close> for a missing key); the lookups see the keyword
  arguments as they are before the list is replaced.
\<close>

definition link_virtual_machines ::
  "'w env \<Rightarrow> pyval \<Rightarrow> kwargs \<Rightarrow> 'w st \<Rightarrow> (exn + kwargs) \<times> 'w st" where
  "link_virtual_machines env resource_group kwargs s =
     (case map_of kwargs ''virtual_machines'' of
        Some (PList vm_names) \<Rightarrow>
          (case resolve_virtual_machines env resource_group kwargs vm_names [] s of
             (Inl exc, s1) \<Rightarrow> (Inl exc, s1)
           | (Inr vm_list, s1) \<Rightarrow>
               (Inr (AList.update ''virtual_machines'' (PList vm_list) kwargs), s1))
      | _ \<Rightarrow> (Inr kwargs, s))"

text \<open>Lines 96 to 131, with the keyword arguments that hold a location.\<close>

definition availability_set_create_or_update_body ::
  "'w env \<Rightarrow> pyval \<Rightarrow> pyval \<Rightarrow> kwargs \<Rightarrow> 'w st \<Rightarrow> (exn + pyval) \<times> 'w st" where
  "availability_set_create_or_update_body env name resource_group kwargs s0 =
     (case call_get_client env ''compute'' kwargs s0 of
        (Inl exc, s1) \<Rightarrow> (Inl exc, s1)
      | (Inr compconn, s1) \<Rightarrow>
     (case link_virtual_machines env resource_group kwargs s1 of
        (Inl exc, s2) \<Rightarrow> (Inl exc, s2)
      | (Inr kwargs2, s2) \<Rightarrow>
     (case call_create_object_model env ''compute'' ''AvailabilitySet'' kwargs2 s2 of
        (Inl exc, s3) \<Rightarrow>
          if isinstance exc [TypeError]
          then (Inr (error_dict (''The object model could not be built. ('' @ str_exn exc @ '')'')), s3)
          else (Inl exc, s3)
      | (Inr setmodel, s3) \<Rightarrow>
     (case call_sdk env (Availability_sets_create_or_update resource_group name setmodel) s3 of
        (Inr av_set, s4) \<Rightarrow> (Inr (PDict av_set), s4)
      | (Inl exc, s4) \<Rightarrow>
          if isinstance exc [HttpResponseError]
          then (Inr (error_dict (str_exn exc)),
                log_cloud_error ''compute'' (str_exn exc) kwargs2 s4)
          else if isinstance exc [SerializationError]
          then (Inr (error_dict (''The object model could not be parsed. ('' @ str_exn exc @ '')'')), s4)
          else (Inl exc, s4)))))"

text \<open>Lines 88 to 94, then the rest.\<close>

definition availability_set_create_or_update ::
  "'w env \<Rightarrow> pyval \<Rightarrow> pyval \<Rightarrow> kwargs \<Rightarrow> 'w st \<Rightarrow> (exn + pyval) \<times> 'w st" where
  "availability_set_create_or_update env name resource_group kwargs s0 =
     (if map_of kwargs ''location'' = None
      then (case call_resource_group_get env resource_group kwargs s0 of
              (Inl exc, s1) \<Rightarrow> (Inl exc, s1)
            | (Inr rg_props, s1) \<Rightarrow>
                if map_of rg_props (KStr ''error'') \<noteq> None
                then (Inr (PBool False),
                      log_error ''Unable to determine location from resource group specified.'' s1)
                else (case getitem rg_props ''location'' of
                        Inl exc \<Rightarrow> (Inl exc, s1)
                      | Inr location \<Rightarrow>
                          availability_set_create_or_update_body env name resource_group
                            (AList.update ''location'' location kwargs) s1))
      else availability_set_create_or_update_body env name resource_group kwargs s0)"

definition availability_set_delete ::
  "'w env \<Rightarrow> pyval \<Rightarrow> pyval \<Rightarrow> kwargs \<Rightarrow> 'w st \<Rightarrow> (exn + pyval) \<times> 'w st" where
  "availability_set_delete env name resource_group kwargs s0 =
     (case call_get_client env ''compute'' kwargs s0 of
        (Inl exc, s1) \<Rightarrow> (Inl exc, s1)
      | (Inr compconn, s1) \<Rightarrow>
     (case call_sdk env (Availability_sets_delete resource_group name) s1 of
        (Inr deleted, s2) \<Rightarrow> (Inr (PBool True), s2)
      | (Inl exc, s2) \<Rightarrow>
          if isinstance exc [HttpResponseError]
          then (Inr (PBool False), log_cloud_error ''compute'' (str_exn exc) kwargs s2)
          else (Inl exc, s2)))"

definition availability_set_get ::
  "'w env \<Rightarrow> pyval \<Rightarrow> pyval \<Rightarrow> kwargs \<Rightarrow> 'w st \<Rightarrow> (exn + pyval) \<times> 'w st" where
  "availability_set_get env name resource_group kwargs s0 =
     (case call_get_client env ''compute'' kwargs s0 of
        (Inl exc, s1) \<Rightarrow> (Inl exc, s1)
      | (Inr compconn, s1) \<Rightarrow>
     (case call_sdk env (Availability_sets_get resource_group name) s1 of
        (Inr av_set, s2) \<Rightarrow> (Inr (PDict av_set), s2)
      | (Inl exc, s2) \<Rightarrow>
          if isinstance exc [ResourceNotFoundError, HttpResponseError]
          then (Inr (error_dict (str_exn exc)),
                log_cloud_error ''compute'' (str_exn exc) kwargs s2)
          else (Inl exc, s2)))"

text \<open>
  The loop \<^verbatim>\<open>for item in items: result[item["name"]] = item\<close> of the five listing
  functions. An item without \<^verbatim>\<open>"name"\<close> raises \<^verbatim>\<open>KeyError\<close>; storing under a key
  that is already there replaces the value and keeps the key's place.
\<close>

definition item_key :: "dict \<Rightarrow> exn + key" where
  "item_key item =
     (case getitem item ''name'' of
        Inl exc \<Rightarrow> Inl exc
      | Inr item_name \<Rightarrow> hash_key item_name)"

fun index_by_name :: "dict list \<Rightarrow> dict \<Rightarrow> exn + dict" where
  "index_by_name [] result = Inr result"
| "index_by_name (item # rest) result =
     (case item_key item of
        Inl exc \<Rightarrow> Inl exc
      | Inr k \<Rightarrow> index_by_name rest (AList.update k (PDict item) result))"

text \<open>
  The body of the \<^verbatim>\<open>try\<close> block of a listing function, after the paged call: an
  exception of the call or of the loop reaches the \<^verbatim>\<open>except\<close> clause.
\<close>

definition listing_try :: "exn + dict list \<Rightarrow> exn + dict" where
  "listing_try r = (case r of Inl exc \<Rightarrow> Inl exc | Inr items \<Rightarrow> index_by_name items [])"

definition availability_sets_list ::
  "'w env \<Rightarrow> pyval \<Rightarrow> kwargs \<Rightarrow> 'w st \<Rightarrow> (exn + pyval) \<times> 'w st" where
  "availability_sets_list env resource_group kwargs s0 =
     (case call_get_client env ''compute'' kwargs s0 of
        (Inl exc, s1) \<Rightarrow> (Inl exc, s1)
      | (Inr compconn, s1) \<Rightarrow>
     (case call_sdk_paged env (Availability_sets_list resource_group) s1 of
        (avail_sets, s2) \<Rightarrow>
     (case listing_try avail_sets of
        Inr result \<Rightarrow> (Inr (PDict result), s2)
      | Inl exc \<Rightarrow>
          if isinstance exc [HttpResponseError]
          then (Inr (error_dict (str_exn exc)),
                log_cloud_error ''compute'' (str_exn exc) kwargs s2)
          else (Inl exc, s2))))"

definition availability_sets_list_available_sizes ::
  "'w env \<Rightarrow> pyval \<Rightarrow> pyval \<Rightarrow> kwargs \<Rightarrow> 'w st \<Rightarrow> (exn + pyval) \<times> 'w st" where
  "availability_sets_list_available_sizes env name resource_group kwargs s0 =
     (case call_get_client env ''compute'' kwargs s0 of
        (Inl exc, s1) \<Rightarrow> (Inl exc, s1)
      | (Inr compconn, s1) \<Rightarrow>
     (case call_sdk_paged env (Availability_sets_list_available_sizes resource_group name) s1 of
        (sizes, s2) \<Rightarrow>
     (case listing_try sizes of
        Inr result \<Rightarrow> (Inr (PDict result), s2)
      | Inl exc \<Rightarrow>
          if isinstance exc [ResourceNotFoundError, HttpResponseError]
          then (Inr (error_dict (str_exn exc)),
                log_cloud_error ''compute'' (str_exn exc) kwargs s2)
          else (Inl exc, s2))))"

subsection \<open>Virtual machines\<close>

text \<open>
  \<^verbatim>\<open>prefix\<close> and \<^verbatim>\<open>overwrite\<close> are named parameters (defaults \<^verbatim>\<open>"capture-"\<close> and
  \<^verbatim>\<open>False\<close>), so they are not part of \<^verbatim>\<open>kwargs\<close>; the request object built from them
  is written as the dictionary of its three fields.
\<close>

definition virtual_machine_capture ::
  "'w env \<Rightarrow> pyval \<Rightarrow> pyval \<Rightarrow> pyval \<Rightarrow> pyval \<Rightarrow> pyval \<Rightarrow> kwargs \<Rightarrow> 'w st \<Rightarrow> (exn + pyval) \<times> 'w st" where
  "virtual_machine_capture env name destination_name resource_group prefix overwrite kwargs s0 =
     (case call_get_client env ''compute'' kwargs s0 of
        (Inl exc, s1) \<Rightarrow> (Inl exc, s1)
      | (Inr compconn, s1) \<Rightarrow>
     (case call_sdk env
             (Virtual_machines_begin_capture resource_group name
                (PDict [(KStr ''vhd_prefix'', prefix),
                        (KStr ''destination_container_name'', destination_name),
                        (KStr ''overwrite_vhds'', overwrite)])) s1 of
        (Inr vm_result, s2) \<Rightarrow> (Inr (PDict vm_result), s2)
      | (Inl exc, s2) \<Rightarrow>
          if isinstance exc [HttpResponseError]
          then (Inr (error_dict (str_exn exc)),
                log_cloud_error ''compute'' (str_exn exc) kwargs s2)
          else (Inl exc, s2)))"

definition virtual_machine_get ::
  "'w env \<Rightarrow> pyval \<Rightarrow> pyval \<Rightarrow> kwargs \<Rightarrow> 'w st \<Rightarrow> (exn + pyval) \<times> 'w st" where
  "virtual_machine_get env name resource_group kwargs s0 =
     (let expand = (case map_of kwargs ''expand'' of None \<Rightarrow> PNone | Some v \<Rightarrow> v) in
     (case call_get_client env ''compute'' kwargs s0 of
        (Inl exc, s1) \<Rightarrow> (Inl exc, s1)
      | (Inr compconn, s1) \<Rightarrow>
     (case call_sdk env (Virtual_machines_get resource_group name expand) s1 of
        (Inr vm, s2) \<Rightarrow> (Inr (PDict vm), s2)
      | (Inl exc, s2) \<Rightarrow>
          if isinstance exc [HttpResponseError]
          then (Inr (error_dict (str_exn exc)),
                log_cloud_error ''compute'' (str_exn exc) kwargs s2)
          else (Inl exc, s2))))"

text \<open>Line 390 passes \<^verbatim>\<open>"comput"\<close> to the logger.\<close>

definition virtual_machine_convert_to_managed_disks ::
  "'w env \<Rightarrow> pyval \<Rightarrow> pyval \<Rightarrow> kwargs \<Rightarrow> 'w st \<Rightarrow> (exn + pyval) \<times> 'w st" where
  "virtual_machine_convert_to_managed_disks env name resource_group kwargs s0 =
     (case call_get_client env ''compute'' kwargs s0 of
        (Inl exc, s1) \<Rightarrow> (Inl exc, s1)
      | (Inr compconn, s1) \<Rightarrow>
     (case call_sdk env (Virtual_machines_begin_convert_to_managed_disks resource_group name) s1 of
        (Inr vm_result, s2) \<Rightarrow> (Inr (PDict vm_result), s2)
      | (Inl exc, s2) \<Rightarrow>
          if isinstance exc [HttpResponseError]
          then (Inr (error_dict (str_exn exc)),
                log_cloud_error ''comput'' (str_exn exc) kwargs s2)
          else (Inl exc, s2)))"

definition virtual_machine_deallocate ::
  "'w env \<Rightarrow> pyval \<Rightarrow> pyval \<Rightarrow> kwargs \<Rightarrow> 'w st \<Rightarrow> (exn + pyval) \<times> 'w st" where
  "virtual_machine_deallocate env name resource_group kwargs s0 =
     (case call_get_client env ''compute'' kwargs s0 of
        (Inl exc, s1) \<Rightarrow> (Inl exc, s1)
      | (Inr compconn, s1) \<Rightarrow>
     (case call_sdk env (Virtual_machines_begin_deallocate resource_group name) s1 of
        (Inr vm_result, s2) \<Rightarrow> (Inr (PDict vm_result), s2)
      | (Inl exc, s2) \<Rightarrow>
          if isinstance exc [HttpResponseError]
          then (Inr (error_dict (str_exn exc)),
                log_cloud_error ''compute'' (str_exn exc) kwargs s2)
          else (Inl exc, s2)))"

definition virtual_machine_generalize ::
  "'w env \<Rightarrow> pyval \<Rightarrow> pyval \<Rightarrow> kwargs \<Rightarrow> 'w st \<Rightarrow> (exn + pyval) \<times> 'w st" where
  "virtual_machine_generalize env name resource_group kwargs s0 =
     (case call_get_client env ''compute'' kwargs s0 of
        (Inl exc, s1) \<Rightarrow> (Inl exc, s1)
      | (Inr compconn, s1) \<Rightarrow>
     (case call_sdk env (Virtual_machines_generalize resource_group name) s1 of
        (Inr generalized, s2) \<Rightarrow> (Inr (PBool True), s2)
      | (Inl exc, s2) \<Rightarrow>
          if isinstance exc [HttpResponseError]
          then (Inr (PBool False), log_cloud_error ''compute'' (str_exn exc) kwargs s2)
          else (Inl exc, s2)))"

definition virtual_machines_list ::
  "'w env \<Rightarrow> pyval \<Rightarrow> kwargs \<Rightarrow> 'w st \<Rightarrow> (exn + pyval) \<times> 'w st" where
  "virtual_machines_list env resource_group kwargs s0 =
     (case call_get_client env ''compute'' kwargs s0 of
        (Inl exc, s1) \<Rightarrow> (Inl exc, s1)
      | (Inr compconn, s1) \<Rightarrow>
     (case call_sdk_paged env (Virtual_machines_list resource_group) s1 of
        (vms, s2) \<Rightarrow>
     (case listing_try vms of
        Inr result \<Rightarrow> (Inr (PDict result), s2)
      | Inl exc \<Rightarrow>
          if isinstance exc [HttpResponseError]
          then (Inr (error_dict (str_exn exc)),
                log_cloud_error ''compute'' (str_exn exc) kwargs s2)
          else (Inl exc, s2))))"

definition virtual_machines_list_all ::
  "'w env \<Rightarrow> kwargs \<Rightarrow> 'w st \<Rightarrow> (exn + pyval) \<times> 'w st" where
  "virtual_machines_list_all env kwargs s0 =
     (case call_get_client env ''compute'' kwargs s0 of
        (Inl exc, s1) \<Rightarrow> (Inl exc, s1)
      | (Inr compconn, s1) \<Rightarrow>
     (case call_sdk_paged env Virtual_machines_list_all s1 of
        (vms, s2) \<Rightarrow>
     (case listing_try vms of
        Inr result \<Rightarrow> (Inr (PDict result), s2)
      | Inl exc \<Rightarrow>
          if isinstance exc [HttpResponseError]
          then (Inr (error_dict (str_exn exc)),
                log_cloud_error ''compute'' (str_exn exc) kwargs s2)
          else (Inl exc, s2))))"

definition virtual_machines_list_available_sizes ::
  "'w env \<Rightarrow> pyval \<Rightarrow> pyval \<Rightarrow> kwargs \<Rightarrow> 'w st \<Rightarrow> (exn + pyval) \<times> 'w st" where
  "virtual_machines_list_available_sizes env name resource_group kwargs s0 =
     (case call_get_client env ''compute'' kwargs s0 of
        (Inl exc, s1) \<Rightarrow> (Inl exc, s1)
      | (Inr compconn, s1) \<Rightarrow>
     (case call_sdk_paged env (Virtual_machines_list_available_sizes resource_group name) s1 of
        (sizes, s2) \<Rightarrow>
     (case listing_try sizes of
        Inr result \<Rightarrow> (Inr (PDict result), s2)
      | Inl exc \<Rightarrow>
          if isinstance exc [HttpResponseError]
          then (Inr (error_dict (str_exn exc)),
                log_cloud_error ''compute'' (str_exn exc) kwargs s2)
          else (Inl exc, s2))))"

definition virtual_machine_power_off ::
  "'w env \<Rightarrow> pyval \<Rightarrow> pyval \<Rightarrow> kwargs \<Rightarrow> 'w st \<Rightarrow> (exn + pyval) \<times> 'w st" where
  "virtual_machine_power_off env name resource_group kwargs s0 =
     (case call_get_client env ''compute'' kwargs s0 of
        (Inl exc, s1) \<Rightarrow> (Inl exc, s1)
      | (Inr compconn, s1) \<Rightarrow>
     (case call_sdk env (Virtual_machines_begin_power_off resource_group name) s1 of
        (Inr vm_result, s2) \<Rightarrow> (Inr (PDict vm_result), s2)
      | (Inl exc, s2) \<Rightarrow>
          if isinstance exc [HttpResponseError]
          then (Inr (error_dict (str_exn exc)),
                log_cloud_error ''compute'' (str_exn exc) kwargs s2)
          else (Inl exc, s2)))"

definition virtual_machine_restart ::
  "'w env \<Rightarrow> pyval \<Rightarrow> pyval \<Rightarrow> kwargs \<Rightarrow> 'w st \<Rightarrow> (exn + pyval) \<times> 'w st" where
  "virtual_machine_restart env name resource_group kwargs s0 =
     (case call_get_client env ''compute'' kwargs s0 of
        (Inl exc, s1) \<Rightarrow> (Inl exc, s1)
      | (Inr compconn, s1) \<Rightarrow>
     (case call_sdk env (Virtual_machines_begin_restart resource_group name) s1 of
        (Inr vm_result, s2) \<Rightarrow> (Inr (PDict vm_result), s2)
      | (Inl exc, s2) \<Rightarrow>
          if isinstance exc [HttpResponseError]
          then (Inr (error_dict (str_exn exc)),
                log_cloud_error ''compute'' (str_exn exc) kwargs s2)
          else (Inl exc, s2)))"

definition virtual_machine_start ::
  "'w env \<Rightarrow> pyval \<Rightarrow> pyval \<Rightarrow> kwargs \<Rightarrow> 'w st \<Rightarrow> (exn + pyval) \<times> 'w st" where
  "virtual_machine_start env name resource_group kwargs s0 =
     (case call_get_client env ''compute'' kwargs s0 of
        (Inl exc, s1) \<Rightarrow> (Inl exc, s1)
      | (Inr compconn, s1) \<Rightarrow>
     (case call_sdk env (Virtual_machines_begin_start resource_group name) s1 of
        (Inr vm_result, s2) \<Rightarrow> (Inr (PDict vm_result), s2)
      | (Inl exc, s2) \<Rightarrow>
          if isinstance exc [HttpResponseError]
          then (Inr (error_dict (str_exn exc)),
                log_cloud_error ''compute'' (str_exn exc) kwargs s2)
          else (Inl exc, s2)))"

definition virtual_machine_redeploy ::
  "'w env \<Rightarrow> pyval \<Rightarrow> pyval \<Rightarrow> kwargs \<Rightarrow> 'w st \<Rightarrow> (exn + pyval) \<times> 'w st" where
  "virtual_machine_redeploy env name resource_group kwargs s0 =
     (case call_get_client env ''compute'' kwargs s0 of
        (Inl exc, s1) \<Rightarrow> (Inl exc, s1)
      | (Inr compconn, s1) \<Rightarrow>
     (case call_sdk env (Virtual_machines_begin_redeploy resource_group name) s1 of
        (Inr vm_result, s2) \<Rightarrow> (Inr (PDict vm_result), s2)
      | (Inl exc, s2) \<Rightarrow>
          if isinstance exc [HttpResponseError]
          then (Inr (error_dict (str_exn exc)),
                log_cloud_error ''compute'' (str_exn exc) kwargs s2)
          else (Inl exc, s2)))"

subsection \<open>A call of any of the seventeen functions\<close>

datatype module_call =
    Availability_set_create_or_update pyval pyval kwargs
  | Availability_set_delete pyval pyval kwargs
  | Availability_set_get pyval pyval kwargs
  | Availability_sets_list_call pyval kwargs
  | Availability_sets_list_available_sizes_call pyval pyval kwargs
  | Virtual_machine_capture pyval pyval pyval pyval pyval kwargs
  | Virtual_machine_get pyval pyval kwargs
  | Virtual_machine_convert_to_managed_disks pyval pyval kwargs
  | Virtual_machine_deallocate pyval pyval kwargs
  | Virtual_machine_generalize pyval pyval kwargs
  | Virtual_machines_list_call pyval kwargs
  | Virtual_machines_list_all_call kwargs
  | Virtual_machines_list_available_sizes_call pyval pyval kwargs
  | Virtual_machine_power_off pyval pyval kwargs
  | Virtual_machine_restart pyval pyval kwargs
  | Virtual_machine_start pyval pyval kwargs
  | Virtual_machine_redeploy pyval pyval kwargs

fun invoke :: "'w env \<Rightarrow> module_call \<Rightarrow> 'w st \<Rightarrow> (exn + pyval) \<times> 'w st" where
  "invoke env (Availability_set_create_or_update n g kw) s = availability_set_create_or_update env n g kw s"
| "invoke env (Availability_set_delete n g kw) s = availability_set_delete env n g kw s"
| "invoke env (Availability_set_get n g kw) s = availability_set_get env n g kw s"
| "invoke env (Availability_sets_list_call g kw) s = availability_sets_list env g kw s"
| "invoke env (Availability_sets_list_available_sizes_call n g kw) s =
     availability_sets_list_available_sizes env n g kw s"
| "invoke env (Virtual_machine_capture n d g p ov kw) s = virtual_machine_capture env n d g p ov kw s"
| "invoke env (Virtual_machine_get n g kw) s = virtual_machine_get env n g kw s"
| "invoke env (Virtual_machine_convert_to_managed_disks n g kw) s =
     virtual_machine_convert_to_managed_disks env n g kw s"
| "invoke env (Virtual_machine_deallocate n g kw) s = virtual_machine_deallocate env n g kw s"
| "invoke env (Virtual_machine_generalize n g kw) s = virtual_machine_generalize env n g kw s"
| "invoke env (Virtual_machines_list_call g kw) s = virtual_machines_list env g kw s"
| "invoke env (Virtual_machines_list_all_call kw) s = virtual_machines_list_all env kw s"
| "invoke env (Virtual_machines_list_available_sizes_call n g kw) s =
     virtual_machines_list_available_sizes env n g kw s"
| "invoke env (Virtual_machine_power_off n g kw) s = virtual_machine_power_off env n g kw s"
| "invoke env (Virtual_machine_restart n g kw) s = virtual_machine_restart env n g kw s"
| "invoke env (Virtual_machine_start n g kw) s = virtual_machine_start env n g kw s"
| "invoke env (Virtual_machine_redeploy n g kw) s = virtual_machine_redeploy env n g kw s"

text \<open>
  \<^verbatim>\<open>availability_set_delete\<close> and \<^verbatim>\<open>virtual_machine_generalize\<close> start from
  \<^verbatim>\<open>result = False\<close> and set \<^verbatim>\<open>result = True\<close> after the SDK call.
\<close>

fun returns_flag :: "module_call \<Rightarrow> bool" where
  "returns_flag (Availability_set_delete n g kw) = True"
| "returns_flag (Virtual_machine_generalize n g kw) = True"
| "returns_flag c = False"

fun is_convert :: "module_call \<Rightarrow> bool" where
  "is_convert (Virtual_machine_convert_to_managed_disks n g kw) = True"
| "is_convert c = False"

fun is_create :: "module_call \<Rightarrow> bool" where
  "is_create (Availability_set_create_or_update n g kw) = True"
| "is_create c = False"

fun is_listing :: "module_call \<Rightarrow> bool" where
  "is_listing (Availability_sets_list_call g kw) = True"
| "is_listing (Availability_sets_list_available_sizes_call n g kw) = True"
| "is_listing (Virtual_machines_list_call g kw) = True"
| "is_listing (Virtual_machines_list_all_call kw) = True"
| "is_listing (Virtual_machines_list_available_sizes_call n g kw) = True"
| "is_listing c = False"

text \<open>A run from a world \<open>w\<close> with no events yet: what was returned or raised, and the events.\<close>

definition outcome :: "'w env \<Rightarrow> module_call \<Rightarrow> 'w \<Rightarrow> exn + pyval" where
  "outcome env c w = fst (invoke env c (w, []))"

definition events :: "'w env \<Rightarrow> module_call \<Rightarrow> 'w \<Rightarrow> event list" where
  "events env c w = snd (snd (invoke env c (w, [])))"

section \<open>Reading the events of a run\<close>

text \<open>The exceptions raised by the SDK client calls of a run, and the calls themselves.\<close>

fun sdk_raised :: "event list \<Rightarrow> exn list" where
  "sdk_raised [] = []"
| "sdk_raised (Sdk c (Inl exc) # evs) = exc # sdk_raised evs"
| "sdk_raised (Sdk_paged c (Inl exc) # evs) = exc # sdk_raised evs"
| "sdk_raised (ev # evs) = sdk_raised evs"

fun sdk_calls :: "event list \<Rightarrow> sdk_call list" where
  "sdk_calls [] = []"
| "sdk_calls (Sdk c r # evs) = c # sdk_calls evs"
| "sdk_calls (Sdk_paged c r # evs) = c # sdk_calls evs"
| "sdk_calls (ev # evs) = sdk_calls evs"

text \<open>The results of the SDK calls that returned, and the item lists of the paged ones.\<close>

fun sdk_returned :: "event list \<Rightarrow> dict list" where
  "sdk_returned [] = []"
| "sdk_returned (Sdk c (Inr d) # evs) = d # sdk_returned evs"
| "sdk_returned (ev # evs) = sdk_returned evs"

fun sdk_listed :: "event list \<Rightarrow> dict list list" where
  "sdk_listed [] = []"
| "sdk_listed (Sdk_paged c (Inr items) # evs) = items # sdk_listed evs"
| "sdk_listed (ev # evs) = sdk_listed evs"

text \<open>The calls of the shared cloud-error logger: client name and message.\<close>

fun cloud_logs :: "event list \<Rightarrow> (string \<times> string) list" where
  "cloud_logs [] = []"
| "cloud_logs (Log_cloud_error client message kwargs # evs) = (client, message) # cloud_logs evs"
| "cloud_logs (ev # evs) = cloud_logs evs"

text \<open>The exceptions raised by the client factory.\<close>

fun client_raised :: "event list \<Rightarrow> exn list" where
  "client_raised [] = []"
| "client_raised (Get_client client kwargs (Inl exc) # evs) = exc # client_raised evs"
| "client_raised (ev # evs) = client_raised evs"

text \<open>What the resource-group lookups and the VM lookups (with the name asked for) gave.\<close>

fun rg_lookups :: "event list \<Rightarrow> (exn + dict) list" where
  "rg_lookups [] = []"
| "rg_lookups (Salt_resource_group_get g kwargs r # evs) = r # rg_lookups evs"
| "rg_lookups (ev # evs) = rg_lookups evs"

fun vm_lookups :: "event list \<Rightarrow> (pyval \<times> (exn + dict)) list" where
  "vm_lookups [] = []"
| "vm_lookups (Salt_virtual_machine_get n g kwargs r # evs) = (n, r) # vm_lookups evs"
| "vm_lookups (ev # evs) = vm_lookups evs"

text \<open>The keyword arguments given to the client factory and to the object-model builder.\<close>

fun client_kwargs :: "event list \<Rightarrow> kwargs list" where
  "client_kwargs [] = []"
| "client_kwargs (Get_client client kwargs r # evs) = kwargs # client_kwargs evs"
| "client_kwargs (ev # evs) = client_kwargs evs"

fun builder_kwargs :: "event list \<Rightarrow> kwargs list" where
  "builder_kwargs [] = []"
| "builder_kwargs (Create_object_model client model kwargs r # evs) = kwargs # builder_kwargs evs"
| "builder_kwargs (ev # evs) = builder_kwargs evs"

fun builder_raised :: "event list \<Rightarrow> exn list" where
  "builder_raised [] = []"
| "builder_raised (Create_object_model client model kwargs (Inl exc) # evs) = exc # builder_raised evs"
| "builder_raised (ev # evs) = builder_raised evs"

text \<open>The last item of a sequence whose \<^verbatim>\<open>"name"\<close> is the key \<open>k\<close>, if there is one.\<close>

definition last_named :: "key \<Rightarrow> dict list \<Rightarrow> dict option" where
  "last_named k items =
     (case filter (\<lambda>item. item_key item = Inr k) items of
        [] \<Rightarrow> None
      | item # rest \<Rightarrow> Some (last (item # rest)))"

text \<open>An item whose \<^verbatim>\<open>"name"\<close> is there and can be a dictionary key.\<close>

definition has_name :: "dict \<Rightarrow> bool" where
  "has_name item = (case item_key item of Inl exc \<Rightarrow> False | Inr k \<Rightarrow> True)"

text \<open>An error value: the boolean \<^verbatim>\<open>False\<close> or a mapping with the key \<^verbatim>\<open>"error"\<close>.\<close>

fun is_error_value :: "pyval \<Rightarrow> bool" where
  "is_error_value (PBool b) = (\<not> b)"
| "is_error_value (PDict d) = (map_of d (KStr ''error'') \<noteq> None)"
| "is_error_value v = False"

text \<open>
  The events of a run of the loop over the VM names: one lookup per name, with the resource
  group and the keyword arguments of the caller.
\<close>

definition vm_events :: "pyval \<Rightarrow> kwargs \<Rightarrow> (pyval \<times> (exn + dict)) list \<Rightarrow> event list" where
  "vm_events g kw ls = map (\<lambda>(n, r). Salt_virtual_machine_get n g kw r) ls"

text \<open>The mappings that the lookups returned, in order.\<close>

fun returned :: "(pyval \<times> (exn + dict)) list \<Rightarrow> dict list" where
  "returned [] = []"
| "returned ((n, Inr d) # ls) = d # returned ls"
| "returned ((n, Inl exc) # ls) = returned ls"

text \<open>
  What a looked-up VM contributes to the list that replaces the names: nothing for an error
  mapping, \<^verbatim>\<open>{"id": str(vm["id"])}\<close> otherwise.
\<close>

definition id_ref :: "'w env \<Rightarrow> dict \<Rightarrow> pyval option" where
  "id_ref env vm_instance =
     (if map_of vm_instance (KStr ''error'') = None
      then map_option (\<lambda>vm_id. PDict [(KStr ''id'', PStr (py_str env vm_id))])
             (map_of vm_instance (KStr ''id''))
      else None)"

text \<open>A lookup result the loop can go on from: an error mapping, or a mapping with an id.\<close>

definition resolvable :: "dict \<Rightarrow> bool" where
  "resolvable vm_instance =
     (map_of vm_instance (KStr ''error'') \<noteq> None \<or> map_of vm_instance (KStr ''id'') \<noteq> None)"

text \<open>A lookup the loop can go on from: it returned an error mapping or a mapping with an id.\<close>

fun lookup_ok :: "pyval \<times> (exn + dict) \<Rightarrow> bool" where
  "lookup_ok (n, Inr d) = resolvable d"
| "lookup_ok (n, Inl exc) = False"

text \<open>\<^verbatim>\<open>isinstance(v, list)\<close>.\<close>

fun is_list :: "pyval \<Rightarrow> bool" where
  "is_list (PList xs) = True"
| "is_list v = False"

text \<open>
  How the keyword arguments \<open>kw2\<close> that reach the object-model builder come from the
  caller's \<open>kw\<close> and the lookups \<open>ls\<close> made.
\<close>

definition linked :: "'w env \<Rightarrow> kwargs \<Rightarrow> (pyval \<times> (exn + dict)) list \<Rightarrow> kwargs \<Rightarrow> bool" where
  "linked env kw ls kw2 =
     (case map_of kw ''virtual_machines'' of
        Some (PList names) \<Rightarrow>
          map fst ls = names \<and> list_all lookup_ok ls
          \<and> kw2 = AList.update ''virtual_machines'' (PList (List.map_filter (id_ref env) (returned ls))) kw
      | _ \<Rightarrow> ls = [] \<and> kw2 = kw)"

section \<open>Concrete collaborators\<close>

text \<open>
  Collaborators with fixed answers, to run the module functions on. The world is a counter
  of the calls made. \<open>demo_str\<close> is \<^verbatim>\<open>str\<close> on \<^verbatim>\<open>None\<close> and the booleans; the runs
  below convert strings only.
\<close>

definition demo_str :: "pyval \<Rightarrow> string" where
  "demo_str v =
     (case v of PNone \<Rightarrow> ''None'' | PBool b \<Rightarrow> (if b then ''True'' else ''False'') | _ \<Rightarrow> [])"

definition fixed_env ::
  "(exn + dict) \<Rightarrow> (pyval \<Rightarrow> exn + dict) \<Rightarrow> (exn + unit) \<Rightarrow> (exn + pyval) \<Rightarrow> (exn + dict)
     \<Rightarrow> (exn + dict list) \<Rightarrow> nat env" where
  "fixed_env rg vm client model answer page =
     \<lparr> salt_resource_group_get = (\<lambda>g kw w. (rg, Suc w)),
       salt_virtual_machine_get = (\<lambda>n g kw w. (vm n, Suc w)),
       get_client = (\<lambda>c kw w. (client, Suc w)),
       create_object_model = (\<lambda>c m kw w. (model, Suc w)),
       sdk = (\<lambda>c w. (answer, Suc w)),
       sdk_paged = (\<lambda>c w. (page, Suc w)),
       str_other = demo_str \<rparr>"

text \<open>A resource group in \<^verbatim>\<open>eastus\<close>; the VM \<^verbatim>\<open>vm1\<close> exists, any other name is not found.\<close>

definition demo_group :: dict where
  "demo_group = [(KStr ''name'', PStr ''testgroup''), (KStr ''location'', PStr ''eastus'')]"

definition demo_vm :: "pyval \<Rightarrow> exn + dict" where
  "demo_vm n =
     (if n = PStr ''vm1''
      then Inr [(KStr ''id'', PStr ''/subscriptions/0/vm1''), (KStr ''name'', PStr ''vm1'')]
      else Inr [(KStr ''error'', PStr ''not found'')])"

definition demo_set :: dict where
  "demo_set = [(KStr ''name'', PStr ''testset''), (KStr ''location'', PStr ''eastus'')]"

text \<open>Two VMs of one name in two resource groups, as a subscription-wide listing can give.\<close>

definition demo_page :: "dict list" where
  "demo_page =
     [[(KStr ''name'', PStr ''web''), (KStr ''id'', PStr ''/groups/a/web'')],
      [(KStr ''name'', PStr ''db''), (KStr ''id'', PStr ''/groups/a/db'')],
      [(KStr ''name'', PStr ''web''), (KStr ''id'', PStr ''/groups/b/web'')]]"

text \<open>Every collaborator answers.\<close>

definition env_ok :: "nat env" where
  "env_ok = fixed_env (Inr demo_group) demo_vm (Inr ()) (Inr (PStr ''AvailabilitySet''))
              (Inr demo_set) (Inr demo_page)"

text \<open>The SDK client raises \<^verbatim>\<open>HttpResponseError\<close>, or its subclass, on every call.\<close>

definition env_http_error :: "nat env" where
  "env_http_error = fixed_env (Inr demo_group) demo_vm (Inr ()) (Inr (PStr ''AvailabilitySet''))
              (Inl (Exn HttpResponseError ''Operation failed''))
              (Inl (Exn HttpResponseError ''Operation failed''))"

definition env_not_found :: "nat env" where
  "env_not_found = fixed_env (Inr demo_group) demo_vm (Inr ()) (Inr (PStr ''AvailabilitySet''))
              (Inl (Exn ResourceNotFoundError ''Not found''))
              (Inl (Exn ResourceNotFoundError ''Not found''))"

text \<open>The SDK client raises \<^verbatim>\<open>SerializationError\<close>.\<close>

definition env_serialization_error :: "nat env" where
  "env_serialization_error = fixed_env (Inr demo_group) demo_vm (Inr ()) (Inr (PStr ''AvailabilitySet''))
              (Inl (Exn SerializationError ''bad sku''))
              (Inl (Exn SerializationError ''bad sku''))"

text \<open>The object-model builder raises \<^verbatim>\<open>TypeError\<close>.\<close>

definition env_type_error :: "nat env" where
  "env_type_error = fixed_env (Inr demo_group) demo_vm (Inr ()) (Inl (Exn TypeError ''bad keyword''))
              (Inr demo_set) (Inr demo_page)"

text \<open>The client factory raises, as it does without a subscription id.\<close>

definition env_no_client :: "nat env" where
  "env_no_client = fixed_env (Inr demo_group) demo_vm
              (Inl (Exn SaltInvocationError ''A subscription_id must be specified''))
              (Inr (PStr ''AvailabilitySet'')) (Inr demo_set) (Inr demo_page)"

text \<open>The resource-group lookup returns an error mapping.\<close>

definition env_no_group :: "nat env" where
  "env_no_group = fixed_env (Inr [(KStr ''error'', PStr ''Resource group not found'')]) demo_vm
              (Inr ()) (Inr (PStr ''AvailabilitySet'')) (Inr demo_set) (Inr demo_page)"

text \<open>Keyword arguments naming three VMs, the second of which does not exist.\<close>

definition demo_names :: kwargs where
  "demo_names = [(''virtual_machines'', PList [PStr ''vm1'', PStr ''gone'', PStr ''vm1''])]"

lemmas demo_defs = fixed_env_def demo_str_def demo_group_def demo_vm_def demo_set_def demo_page_def
  env_ok_def env_http_error_def env_not_found_def env_serialization_error_def env_type_error_def
  env_no_client_def env_no_group_def


section \<open>Lemmas on events and on the two loops\<close>

lemma sdk_raised_append: "sdk_raised (xs @ ys) = sdk_raised xs @ sdk_raised ys"
  by (induction xs rule: sdk_raised.induct) simp_all
lemma sdk_calls_append: "sdk_calls (xs @ ys) = sdk_calls xs @ sdk_calls ys"
  by (induction xs rule: sdk_calls.induct) simp_all
lemma sdk_returned_append: "sdk_returned (xs @ ys) = sdk_returned xs @ sdk_returned ys"
  by (induction xs rule: sdk_returned.induct) simp_all
lemma sdk_listed_append: "sdk_listed (xs @ ys) = sdk_listed xs @ sdk_listed ys"
  by (induction xs rule: sdk_listed.induct) simp_all
lemma cloud_logs_append: "cloud_logs (xs @ ys) = cloud_logs xs @ cloud_logs ys"
  by (induction xs rule: cloud_logs.induct) simp_all
lemma client_raised_append: "client_raised (xs @ ys) = client_raised xs @ client_raised ys"
  by (induction xs rule: client_raised.induct) simp_all
lemma rg_lookups_append: "rg_lookups (xs @ ys) = rg_lookups xs @ rg_lookups ys"
  by (induction xs rule: rg_lookups.induct) simp_all
lemma vm_lookups_append: "vm_lookups (xs @ ys) = vm_lookups xs @ vm_lookups ys"
  by (induction xs rule: vm_lookups.induct) simp_all
lemma client_kwargs_append: "client_kwargs (xs @ ys) = client_kwargs xs @ client_kwargs ys"
  by (induction xs rule: client_kwargs.induct) simp_all
lemma builder_kwargs_append: "builder_kwargs (xs @ ys) = builder_kwargs xs @ builder_kwargs ys"
  by (induction xs rule: builder_kwargs.induct) simp_all
lemma builder_raised_append: "builder_raised (xs @ ys) = builder_raised xs @ builder_raised ys"
  by (induction xs rule: builder_raised.induct) simp_all

lemmas events_append = sdk_raised_append sdk_calls_append sdk_returned_append sdk_listed_append
  cloud_logs_append client_raised_append rg_lookups_append vm_lookups_append
  client_kwargs_append builder_kwargs_append builder_raised_append

lemmas call_defs = call_get_client_def call_sdk_def call_sdk_paged_def
  call_create_object_model_def call_resource_group_get_def call_virtual_machine_get_def
  log_cloud_error_def log_error_def

lemma vm_events_simps:
  "vm_events g kw [] = []"
  "vm_events g kw ((n, r) # ls) = Salt_virtual_machine_get n g kw r # vm_events g kw ls"
  "vm_events g kw (ls @ ls') = vm_events g kw ls @ vm_events g kw ls'"
  by (simp_all add: vm_events_def)

lemma vm_events_proj:
  "sdk_raised (vm_events g kw ls) = []"
  "sdk_calls (vm_events g kw ls) = []"
  "sdk_returned (vm_events g kw ls) = []"
  "sdk_listed (vm_events g kw ls) = []"
  "cloud_logs (vm_events g kw ls) = []"
  "client_raised (vm_events g kw ls) = []"
  "rg_lookups (vm_events g kw ls) = []"
  "vm_lookups (vm_events g kw ls) = ls"
  "client_kwargs (vm_events g kw ls) = []"
  "builder_kwargs (vm_events g kw ls) = []"
  "builder_raised (vm_events g kw ls) = []"
  by (induction ls; auto simp: vm_events_def)+

lemma resolve_virtual_machines_events:
  "resolve_virtual_machines env g kw names acc s = (r, s') \<Longrightarrow>
   \<exists>ls. snd s' = snd s @ vm_events g kw ls \<and>
     (case r of
        Inl exc \<Rightarrow> \<not> list_all lookup_ok ls
      | Inr vm_list \<Rightarrow>
          map fst ls = names \<and> list_all lookup_ok ls
          \<and> vm_list = acc @ List.map_filter (id_ref env) (returned ls))"
proof (induction names arbitrary: acc s)
  case Nil
  then show ?case by (auto intro!: exI[of _ "[]"] simp: vm_events_simps)
next
  case (Cons vm_name rest)
  obtain x w1 where call: "salt_virtual_machine_get env vm_name g kw (fst s) = (x, w1)"
    by (cases "salt_virtual_machine_get env vm_name g kw (fst s)")
  let ?s1 = "(w1, snd s @ [Salt_virtual_machine_get vm_name g kw x])"
  show ?case
  proof (cases x)
    case (Inl exc)
    with Cons.prems call show ?thesis
      by (auto simp: call_defs vm_events_simps intro!: exI[of _ "[(vm_name, Inl exc)]"])
  next
    case xd: (Inr d)
    show ?thesis
    proof (cases "resolvable d")
      case False
      with Cons.prems call xd show ?thesis
        by (auto simp: call_defs getitem_def resolvable_def vm_events_simps
            intro!: exI[of _ "[(vm_name, Inr d)]"])
    next
      case ok: True
      define acc' where "acc' = acc @ List.map_filter (id_ref env) [d]"
      from Cons.prems call xd ok
      have rec: "resolve_virtual_machines env g kw rest acc' ?s1 = (r, s')"
        by (auto simp: call_defs getitem_def resolvable_def id_ref_def acc'_def
            split: if_splits option.splits)
      from Cons.IH[OF rec] obtain ls where ls: "snd s' = snd ?s1 @ vm_events g kw ls"
        "(case r of Inl exc \<Rightarrow> \<not> list_all lookup_ok ls
          | Inr vm_list \<Rightarrow> map fst ls = rest \<and> list_all lookup_ok ls
              \<and> vm_list = acc' @ List.map_filter (id_ref env) (returned ls))"
        by blast
      have ev: "snd s' = snd s @ vm_events g kw ((vm_name, Inr d) # ls)"
        using ls(1) xd by (simp add: vm_events_simps)
      have "(case r of Inl exc \<Rightarrow> \<not> list_all lookup_ok ((vm_name, Inr d) # ls)
          | Inr vm_list \<Rightarrow> map fst ((vm_name, Inr d) # ls) = vm_name # rest
              \<and> list_all lookup_ok ((vm_name, Inr d) # ls)
              \<and> vm_list = acc @ List.map_filter (id_ref env) (returned ((vm_name, Inr d) # ls)))"
        using ls(2) ok by (cases r) (simp_all add: acc'_def split: option.splits)
      with ev show ?thesis by blast
    qed
  qed
qed

lemma link_virtual_machines_events:
  assumes "link_virtual_machines env g kw s = (r, s')"
  shows "\<exists>ls. snd s' = snd s @ vm_events g kw ls \<and>
           (case r of Inl exc \<Rightarrow> \<not> list_all lookup_ok ls \<and> is_list (the (map_of kw ''virtual_machines''))
                    | Inr kw2 \<Rightarrow> linked env kw ls kw2)"
proof (cases "\<exists>names. map_of kw ''virtual_machines'' = Some (PList names)")
  case False
  with assms have "r = Inr kw" "s' = s"
    by (auto simp: link_virtual_machines_def split: option.splits pyval.splits)
  moreover from False have "linked env kw [] kw"
    by (auto simp: linked_def split: option.splits pyval.splits)
  ultimately show ?thesis
    by (intro exI[of _ "[]"]) (simp add: vm_events_simps)
next
  case True
  then obtain names where names: "map_of kw ''virtual_machines'' = Some (PList names)" by blast
  obtain x s1 where res: "resolve_virtual_machines env g kw names [] s = (x, s1)"
    by (cases "resolve_virtual_machines env g kw names [] s")
  from resolve_virtual_machines_events[OF res]
  obtain ls where ls: "snd s1 = snd s @ vm_events g kw ls"
    "(case x of Inl exc \<Rightarrow> \<not> list_all lookup_ok ls
      | Inr vm_list \<Rightarrow> map fst ls = names \<and> list_all lookup_ok ls
           \<and> vm_list = [] @ List.map_filter (id_ref env) (returned ls))"
    by blast
  show ?thesis
  proof (cases x)
    case (Inl exc)
    with assms names res have "r = Inl exc" "s' = s1"
      by (simp_all add: link_virtual_machines_def)
    with ls Inl names show ?thesis by auto
  next
    case (Inr vm_list)
    with assms names res
    have r: "r = Inr (AList.update ''virtual_machines'' (PList vm_list) kw)" and s': "s' = s1"
      by (simp_all add: link_virtual_machines_def)
    have "linked env kw ls (AList.update ''virtual_machines'' (PList vm_list) kw)"
      using names ls(2) Inr by (simp add: linked_def)
    with ls(1) r s' show ?thesis by auto
  qed
qed

lemma body_cases:
  assumes "availability_set_create_or_update_body env n g kw s = (out, s')"
  obtains
    (client_raises) exc where
      "snd s' = snd s @ [Get_client ''compute'' kw (Inl exc)]" "out = Inl exc"
  | (lookup_raises) ls exc where
      "snd s' = snd s @ Get_client ''compute'' kw (Inr ()) # vm_events g kw ls"
      "out = Inl exc" "\<not> list_all lookup_ok ls" "is_list (the (map_of kw ''virtual_machines''))"
  | (builder_raises) ls kw2 exc where
      "snd s' = snd s @ Get_client ''compute'' kw (Inr ()) # vm_events g kw ls
                  @ [Create_object_model ''compute'' ''AvailabilitySet'' kw2 (Inl exc)]"
      "linked env kw ls kw2"
      "out = (if isinstance exc [TypeError]
              then Inr (error_dict (''The object model could not be built. ('' @ str_exn exc @ '')''))
              else Inl exc)"
  | (sdk_returns) ls kw2 setmodel av_set where
      "snd s' = snd s @ Get_client ''compute'' kw (Inr ()) # vm_events g kw ls
                  @ [Create_object_model ''compute'' ''AvailabilitySet'' kw2 (Inr setmodel),
                     Sdk (Availability_sets_create_or_update g n setmodel) (Inr av_set)]"
      "linked env kw ls kw2" "out = Inr (PDict av_set)"
  | (sdk_http_error) ls kw2 setmodel exc where
      "snd s' = snd s @ Get_client ''compute'' kw (Inr ()) # vm_events g kw ls
                  @ [Create_object_model ''compute'' ''AvailabilitySet'' kw2 (Inr setmodel),
                     Sdk (Availability_sets_create_or_update g n setmodel) (Inl exc),
                     Log_cloud_error ''compute'' (str_exn exc) kw2]"
      "linked env kw ls kw2" "isinstance exc [HttpResponseError]"
      "out = Inr (error_dict (str_exn exc))"
  | (sdk_other_error) ls kw2 setmodel exc where
      "snd s' = snd s @ Get_client ''compute'' kw (Inr ()) # vm_events g kw ls
                  @ [Create_object_model ''compute'' ''AvailabilitySet'' kw2 (Inr setmodel),
                     Sdk (Availability_sets_create_or_update g n setmodel) (Inl exc)]"
      "linked env kw ls kw2" "\<not> isinstance exc [HttpResponseError]"
      "out = (if isinstance exc [SerializationError]
              then Inr (error_dict (''The object model could not be parsed. ('' @ str_exn exc @ '')''))
              else Inl exc)"
proof -
  obtain gc w1 where gc: "get_client env ''compute'' kw (fst s) = (gc, w1)"
    by (cases "get_client env ''compute'' kw (fst s)")
  let ?s1 = "(w1, snd s @ [Get_client ''compute'' kw gc])"
  show thesis
  proof (cases gc)
    case (Inl exc)
    with assms gc have "snd s' = snd s @ [Get_client ''compute'' kw (Inl exc)]" "out = Inl exc"
      by (auto simp: availability_set_create_or_update_body_def call_get_client_def)
    then show thesis by (rule client_raises)
  next
    case gc_ok: (Inr u)
    obtain lk s2 where lk: "link_virtual_machines env g kw ?s1 = (lk, s2)"
      by (cases "link_virtual_machines env g kw ?s1")
    from link_virtual_machines_events[OF lk]
    obtain ls where ls: "snd s2 = snd s @ Get_client ''compute'' kw (Inr ()) # vm_events g kw ls"
      "(case lk of Inl exc \<Rightarrow> \<not> list_all lookup_ok ls \<and> is_list (the (map_of kw ''virtual_machines''))
                 | Inr kw2 \<Rightarrow> linked env kw ls kw2)"
      using gc_ok by auto
    show thesis
    proof (cases lk)
      case (Inl exc)
      with assms gc gc_ok lk have "out = Inl exc" "s' = s2"
        by (auto simp: availability_set_create_or_update_body_def call_get_client_def)
      with ls Inl show thesis by (auto intro: lookup_raises)
    next
      case lk_ok: (Inr kw2)
      with ls have linked: "linked env kw ls kw2" by simp
      obtain om w3 where om: "create_object_model env ''compute'' ''AvailabilitySet'' kw2 (fst s2) = (om, w3)"
        by (cases "create_object_model env ''compute'' ''AvailabilitySet'' kw2 (fst s2)")
      let ?s3 = "(w3, snd s2 @ [Create_object_model ''compute'' ''AvailabilitySet'' kw2 om])"
      show thesis
      proof (cases om)
        case (Inl exc)
        with assms gc gc_ok lk lk_ok om
        have "out = (if isinstance exc [TypeError]
              then Inr (error_dict (''The object model could not be built. ('' @ str_exn exc @ '')''))
              else Inl exc)" "s' = ?s3"
          by (auto simp: availability_set_create_or_update_body_def call_get_client_def
              call_create_object_model_def split: if_splits)
        with ls(1) linked Inl show thesis by (auto intro: builder_raises)
      next
        case om_ok: (Inr setmodel)
        obtain r w4 where r: "sdk env (Availability_sets_create_or_update g n setmodel) w3 = (r, w4)"
          by (cases "sdk env (Availability_sets_create_or_update g n setmodel) w3")
        let ?s4 = "(w4, snd ?s3 @ [Sdk (Availability_sets_create_or_update g n setmodel) r])"
        show thesis
        proof (cases r)
          case (Inr av_set)
          with assms gc gc_ok lk lk_ok om om_ok r
          have "out = Inr (PDict av_set)" "s' = ?s4"
            by (auto simp: availability_set_create_or_update_body_def call_get_client_def
              call_create_object_model_def call_sdk_def)
          with ls(1) linked om_ok Inr show thesis by (auto intro: sdk_returns)
        next
          case (Inl exc)
          show thesis
          proof (cases "isinstance exc [HttpResponseError]")
            case True
            with assms gc gc_ok lk lk_ok om om_ok r Inl
            have "out = Inr (error_dict (str_exn exc))"
              "s' = (w4, snd ?s4 @ [Log_cloud_error ''compute'' (str_exn exc) kw2])"
              by (auto simp: availability_set_create_or_update_body_def call_get_client_def
                  call_create_object_model_def call_sdk_def log_cloud_error_def)
            with ls(1) linked om_ok Inl True show thesis by (auto intro: sdk_http_error)
          next
            case False
            with assms gc gc_ok lk lk_ok om om_ok r Inl
            have "out = (if isinstance exc [SerializationError]
              then Inr (error_dict (''The object model could not be parsed. ('' @ str_exn exc @ '')''))
              else Inl exc)" "s' = ?s4"
              by (auto simp: availability_set_create_or_update_body_def call_get_client_def
                  call_create_object_model_def call_sdk_def split: if_splits)
            with ls(1) linked om_ok Inl False show thesis by (auto intro: sdk_other_error)
          qed
        qed
      qed
    qed
  qed
qed
lemma create_cases:
  assumes "availability_set_create_or_update env n g kw (w, []) = (out, (w', tr))"
  obtains
    (has_location) "map_of kw ''location'' \<noteq> None"
      "availability_set_create_or_update_body env n g kw (w, []) = (out, (w', tr))"
  | (rg_raises) exc where "map_of kw ''location'' = None"
      "tr = [Salt_resource_group_get g kw (Inl exc)]" "out = Inl exc"
  | (rg_error) rg_props where "map_of kw ''location'' = None"
      "map_of rg_props (KStr ''error'') \<noteq> None"
      "tr = [Salt_resource_group_get g kw (Inr rg_props),
             Log_error ''Unable to determine location from resource group specified.'']"
      "out = Inr (PBool False)"
  | (rg_no_location) rg_props exc where "map_of kw ''location'' = None"
      "map_of rg_props (KStr ''error'') = None" "map_of rg_props (KStr ''location'') = None"
      "tr = [Salt_resource_group_get g kw (Inr rg_props)]"
      "out = Inl exc" "exn_cls exc = KeyError"
  | (adopted) rg_props location w1 where "map_of kw ''location'' = None"
      "map_of rg_props (KStr ''error'') = None" "map_of rg_props (KStr ''location'') = Some location"
      "availability_set_create_or_update_body env n g (AList.update ''location'' location kw)
         (w1, [Salt_resource_group_get g kw (Inr rg_props)]) = (out, (w', tr))"
proof (cases "map_of kw ''location'' = None")
  case False
  with assms show thesis
    by (intro has_location) (simp_all add: availability_set_create_or_update_def)
next
  case noloc: True
  obtain r w1 where r: "salt_resource_group_get env g kw w = (r, w1)"
    by (cases "salt_resource_group_get env g kw w")
  show thesis
  proof (cases r)
    case (Inl exc)
    with assms noloc r show thesis
      by (intro rg_raises[of exc]) (auto simp: availability_set_create_or_update_def call_resource_group_get_def)
  next
    case rg: (Inr rg_props)
    show thesis
    proof (cases "map_of rg_props (KStr ''error'') = None")
      case False
      with assms noloc r rg show thesis
        by (intro rg_error[of rg_props])
          (auto simp: availability_set_create_or_update_def call_resource_group_get_def log_error_def)
    next
      case noerr: True
      show thesis
      proof (cases "map_of rg_props (KStr ''location'')")
        case None
        with assms noloc r rg noerr show thesis
          by (intro rg_no_location[of rg_props "Exn KeyError ([CHR 0x27] @ ''location'' @ [CHR 0x27])"])
            (auto simp: availability_set_create_or_update_def call_resource_group_get_def getitem_def)
      next
        case (Some location)
        with assms noloc r rg noerr show thesis
          by (intro adopted[of rg_props location w1])
            (auto simp: availability_set_create_or_update_def call_resource_group_get_def getitem_def)
      qed
    qed
  qed
qed

lemma isinstance_rnf_http:
  "isinstance exc [ResourceNotFoundError, HttpResponseError] = isinstance exc [HttpResponseError]"
  by (cases exc; cases "exn_cls exc") (auto simp: isinstance_def)

lemmas module_defs =
  availability_set_delete_def availability_set_get_def availability_sets_list_def
  availability_sets_list_available_sizes_def virtual_machine_capture_def virtual_machine_get_def
  virtual_machine_convert_to_managed_disks_def virtual_machine_deallocate_def
  virtual_machine_generalize_def virtual_machines_list_def virtual_machines_list_all_def
  virtual_machines_list_available_sizes_def virtual_machine_power_off_def
  virtual_machine_restart_def virtual_machine_start_def virtual_machine_redeploy_def

lemma invoke_create:
  "invoke env (Availability_set_create_or_update n g kw) (w, []) =
     (outcome env (Availability_set_create_or_update n g kw) w,
      (fst (snd (invoke env (Availability_set_create_or_update n g kw) (w, []))),
       events env (Availability_set_create_or_update n g kw) w))"
  by (simp add: outcome_def events_def)

lemma create_http:
  assumes "availability_set_create_or_update env n g kw (w, []) = (out, (w', tr))"
    and "exc \<in> set (sdk_raised tr)" and "isinstance exc [HttpResponseError]"
  shows "out = Inr (error_dict (str_exn exc)) \<and> cloud_logs tr = [(''compute'', str_exn exc)]"
  using assms(1)
proof (cases rule: create_cases)
  case has_location
  from has_location(2) assms(2,3) show ?thesis
    by (cases rule: body_cases) (auto simp: events_append vm_events_proj)
next
  case (adopted rg_props location w1)
  from adopted(4) assms(2,3) show ?thesis
    by (cases rule: body_cases) (auto simp: events_append vm_events_proj)
qed (use assms(2) in auto)

lemma http_error_handled:
  assumes "exc \<in> set (sdk_raised (events env c w))"
    and "isinstance exc [HttpResponseError]"
  shows "outcome env c w = Inr (if returns_flag c then PBool False else error_dict (str_exn exc))"
    and "map snd (cloud_logs (events env c w)) = [str_exn exc]"
    and "\<not> is_convert c \<Longrightarrow> cloud_logs (events env c w) = [(''compute'', str_exn exc)]"
proof -
  have "outcome env c w = Inr (if returns_flag c then PBool False else error_dict (str_exn exc))
      \<and> map snd (cloud_logs (events env c w)) = [str_exn exc]
      \<and> (\<not> is_convert c \<longrightarrow> cloud_logs (events env c w) = [(''compute'', str_exn exc)])"
  proof (cases c)
    case (Availability_set_create_or_update n g kw)
    with create_http[OF invoke_create[unfolded invoke.simps], of exc env n g kw w] assms
    show ?thesis by simp
  qed (use assms in \<open>auto simp: outcome_def events_def module_defs call_defs events_append
         isinstance_rnf_http listing_try_def split: prod.splits sum.splits if_splits\<close>)
  then show "outcome env c w = Inr (if returns_flag c then PBool False else error_dict (str_exn exc))"
    and "map snd (cloud_logs (events env c w)) = [str_exn exc]"
    and "\<not> is_convert c \<Longrightarrow> cloud_logs (events env c w) = [(''compute'', str_exn exc)]"
    by simp_all
qed

lemmas run_defs = outcome_def events_def module_defs call_defs listing_try_def
  availability_set_create_or_update_def availability_set_create_or_update_body_def
  link_virtual_machines_def getitem_def error_dict_def isinstance_def py_str_def item_key_def

lemma isinstance_serialization_not_http:
  "isinstance exc [SerializationError] \<Longrightarrow> \<not> isinstance exc [HttpResponseError]"
  by (cases exc; cases "exn_cls exc") (auto simp: isinstance_def)

lemma create_serialization:
  assumes "availability_set_create_or_update env n g kw (w, []) = (out, (w', tr))"
    and "exc \<in> set (sdk_raised tr)" and "isinstance exc [SerializationError]"
  shows "out = Inr (error_dict (''The object model could not be parsed. ('' @ str_exn exc @ '')''))
       \<and> cloud_logs tr = []"
  using assms(1)
proof (cases rule: create_cases)
  case has_location
  from has_location(2) assms(2,3) show ?thesis
    by (cases rule: body_cases)
      (auto simp: events_append vm_events_proj dest: isinstance_serialization_not_http)
next
  case (adopted rg_props location w1)
  from adopted(4) assms(2,3) show ?thesis
    by (cases rule: body_cases)
      (auto simp: events_append vm_events_proj dest: isinstance_serialization_not_http)
qed (use assms(2) in auto)

lemma create_builder_type_error:
  assumes "availability_set_create_or_update env n g kw (w, []) = (out, (w', tr))"
    and "exc \<in> set (builder_raised tr)" and "isinstance exc [TypeError]"
  shows "out = Inr (error_dict (''The object model could not be built. ('' @ str_exn exc @ '')''))
       \<and> cloud_logs tr = [] \<and> sdk_calls tr = []"
  using assms(1)
proof (cases rule: create_cases)
  case has_location
  from has_location(2) assms(2,3) show ?thesis
    by (cases rule: body_cases) (auto simp: events_append vm_events_proj)
next
  case (adopted rg_props location w1)
  from adopted(4) assms(2,3) show ?thesis
    by (cases rule: body_cases) (auto simp: events_append vm_events_proj)
qed (use assms(2) in auto)

lemma create_client_raised:
  assumes "availability_set_create_or_update env n g kw (w, []) = (out, (w', tr))"
    and "exc \<in> set (client_raised tr)"
  shows "out = Inl exc"
  using assms(1)
proof (cases rule: create_cases)
  case has_location
  from has_location(2) assms(2) show ?thesis
    by (cases rule: body_cases) (auto simp: events_append vm_events_proj)
next
  case (adopted rg_props location w1)
  from adopted(4) assms(2) show ?thesis
    by (cases rule: body_cases) (auto simp: events_append vm_events_proj)
qed (use assms(2) in auto)

lemma linked_other_key:
  "linked env kw ls kw2 \<Longrightarrow> k \<noteq> ''virtual_machines'' \<Longrightarrow> map_of kw2 k = map_of kw k"
  by (auto simp: linked_def update_conv' split: option.splits pyval.splits)

lemma body_kwargs:
  assumes "availability_set_create_or_update_body env n g kw s = (out, s')"
  shows "\<exists>evs. snd s' = snd s @ evs \<and> rg_lookups evs = [] \<and> client_kwargs evs = [kw]
           \<and> list_all (\<lambda>kw2. map_of kw2 ''location'' = map_of kw ''location'') (builder_kwargs evs)"
  using assms
  by (cases rule: body_cases)
    (auto simp: events_append vm_events_proj dest: linked_other_key[where k = "''location''"])

lemma create_no_location:
  assumes "availability_set_create_or_update env n g kw (w, []) = (out, (w', tr))"
    and "map_of kw ''location'' = None"
  shows "length (rg_lookups tr) = 1"
    and "rg_lookups tr = [Inr rg_props] \<Longrightarrow> map_of rg_props (KStr ''error'') \<noteq> None \<Longrightarrow>
           out = Inr (PBool False) \<and> sdk_calls tr = [] \<and> client_kwargs tr = []"
    and "rg_lookups tr = [Inr rg_props] \<Longrightarrow> map_of rg_props (KStr ''error'') = None \<Longrightarrow>
         map_of rg_props (KStr ''location'') = Some location \<Longrightarrow>
           client_kwargs tr = [AList.update ''location'' location kw]
           \<and> list_all (\<lambda>kw2. map_of kw2 ''location'' = Some location) (builder_kwargs tr)"
proof -
  have "length (rg_lookups tr) = 1
    \<and> (rg_lookups tr = [Inr rg_props] \<longrightarrow> map_of rg_props (KStr ''error'') \<noteq> None \<longrightarrow>
           out = Inr (PBool False) \<and> sdk_calls tr = [] \<and> client_kwargs tr = [])
    \<and> (rg_lookups tr = [Inr rg_props] \<longrightarrow> map_of rg_props (KStr ''error'') = None \<longrightarrow>
         map_of rg_props (KStr ''location'') = Some location \<longrightarrow>
           client_kwargs tr = [AList.update ''location'' location kw]
           \<and> list_all (\<lambda>kw2. map_of kw2 ''location'' = Some location) (builder_kwargs tr))"
    using assms(1)
  proof (cases rule: create_cases)
    case (adopted props loc w1)
    from body_kwargs[OF adopted(4)] obtain evs where
      evs: "tr = Salt_resource_group_get g kw (Inr props) # evs" "rg_lookups evs = []"
        "client_kwargs evs = [AList.update ''location'' loc kw]"
        "list_all (\<lambda>kw2. map_of kw2 ''location'' = map_of (AList.update ''location'' loc kw) ''location'')
           (builder_kwargs evs)"
      by auto
    from evs(4) have "list_all (\<lambda>kw2. map_of kw2 ''location'' = Some loc) (builder_kwargs evs)"
      by (simp add: update_conv')
    with evs(1,2,3) adopted(2,3) show ?thesis by auto
  qed (use assms(2) in auto)
  then show "length (rg_lookups tr) = 1"
    and "rg_lookups tr = [Inr rg_props] \<Longrightarrow> map_of rg_props (KStr ''error'') \<noteq> None \<Longrightarrow>
           out = Inr (PBool False) \<and> sdk_calls tr = [] \<and> client_kwargs tr = []"
    and "rg_lookups tr = [Inr rg_props] \<Longrightarrow> map_of rg_props (KStr ''error'') = None \<Longrightarrow>
         map_of rg_props (KStr ''location'') = Some location \<Longrightarrow>
           client_kwargs tr = [AList.update ''location'' location kw]
           \<and> list_all (\<lambda>kw2. map_of kw2 ''location'' = Some location) (builder_kwargs tr)"
    by simp_all
qed

lemma client_raised_propagates:
  assumes "exc \<in> set (client_raised (events env c w))"
  shows "outcome env c w = Inl exc"
proof (cases c)
  case (Availability_set_create_or_update n g kw)
  with create_client_raised[OF invoke_create[unfolded invoke.simps], of exc env n g kw w] assms
  show ?thesis by simp
qed (use assms in \<open>auto simp: outcome_def events_def module_defs call_defs events_append
       listing_try_def split: prod.splits sum.splits if_splits\<close>)

lemma create_rg_error:
  assumes "availability_set_create_or_update env n g kw (w, []) = (out, (w', tr))"
    and "Inr rg_props \<in> set (rg_lookups tr)" and "map_of rg_props (KStr ''error'') \<noteq> None"
  shows "out = Inr (PBool False)"
  using assms(1)
proof (cases rule: create_cases)
  case has_location
  from body_kwargs[OF has_location(2)] assms(2) show ?thesis by auto
next
  case (adopted props loc w1)
  from body_kwargs[OF adopted(4)] assms(2,3) adopted(2) show ?thesis by auto
qed (use assms(2,3) in auto)

lemma only_create_builds:
  assumes "\<not> is_create c"
  shows "builder_raised (events env c w) = [] \<and> rg_lookups (events env c w) = []"
  using assms
  by (cases c) (auto simp: events_def module_defs call_defs events_append listing_try_def
      split: prod.splits sum.splits if_splits)

lemma is_error_value_error_dict: "is_error_value (error_dict m)"
  by (simp add: error_dict_def)

lemma generalize_run:
  "(sdk_calls (events env (Virtual_machine_generalize n g kw) w) = []
      \<or> sdk_calls (events env (Virtual_machine_generalize n g kw) w) = [Virtual_machines_generalize g n])
   \<and> (sdk_returned (events env (Virtual_machine_generalize n g kw) w) \<noteq> [] \<longrightarrow>
         outcome env (Virtual_machine_generalize n g kw) w = Inr (PBool True))
   \<and> (\<forall>d. outcome env (Virtual_machine_generalize n g kw) w \<noteq> Inr (PDict d))"
  by (auto simp: outcome_def events_def virtual_machine_generalize_def call_defs events_append
      split: prod.splits sum.splits if_splits)

lemma body_builder:
  assumes "availability_set_create_or_update_body env n g kw s = (out, s')"
  shows "\<exists>evs. snd s' = snd s @ evs \<and> client_kwargs evs = [kw] \<and>
     ((builder_kwargs evs = [] \<and> ((client_raised evs \<noteq> [] \<and> vm_lookups evs = []) \<or>
          (\<not> list_all lookup_ok (vm_lookups evs) \<and> is_list (the (map_of kw ''virtual_machines'')))))
      \<or> (\<exists>kw2. builder_kwargs evs = [kw2] \<and> client_raised evs = []
            \<and> linked env kw (vm_lookups evs) kw2))"
  using assms
  by (cases rule: body_cases) (auto simp: events_append vm_events_proj)

lemma create_builder:
  assumes "availability_set_create_or_update env n g kw (w, []) = (out, (w', tr))"
  shows "(builder_kwargs tr = [] \<and> vm_lookups tr = [] \<and> client_kwargs tr = [])
       \<or> (\<exists>kw'. client_kwargs tr = [kw']
            \<and> map_of kw' ''virtual_machines'' = map_of kw ''virtual_machines''
            \<and> ((builder_kwargs tr = [] \<and> ((client_raised tr \<noteq> [] \<and> vm_lookups tr = []) \<or>
                   (\<not> list_all lookup_ok (vm_lookups tr) \<and> is_list (the (map_of kw ''virtual_machines'')))))
               \<or> (\<exists>kw2. builder_kwargs tr = [kw2] \<and> client_raised tr = []
                     \<and> linked env kw' (vm_lookups tr) kw2)))"
  using assms
proof (cases rule: create_cases)
  case has_location
  from body_builder[OF has_location(2)] show ?thesis by auto
next
  case (adopted props loc w1)
  have "map_of (AList.update ''location'' loc kw) ''virtual_machines'' = map_of kw ''virtual_machines''"
    by (simp add: update_conv')
  with body_builder[OF adopted(4)] show ?thesis
    by (auto simp: events_append)
qed auto

lemma last_named_Cons:
  "last_named k (item # items) =
     (case last_named k items of
        Some it \<Rightarrow> Some it
      | None \<Rightarrow> if item_key item = Inr k then Some item else None)"
  by (auto simp: last_named_def split: list.splits)

lemma index_by_name_result:
  assumes "list_all has_name items"
  shows "\<exists>res. index_by_name items result = Inr res
           \<and> (\<forall>k. map_of res k =
                 (case last_named k items of None \<Rightarrow> map_of result k | Some it \<Rightarrow> Some (PDict it)))
           \<and> (distinct (map fst result) \<longrightarrow> distinct (map fst res))"
  using assms
proof (induction items arbitrary: result)
  case Nil
  then show ?case by (simp add: last_named_def)
next
  case (Cons item items)
  then obtain k where k: "item_key item = Inr k"
    by (auto simp: has_name_def split: sum.splits)
  from Cons have "list_all has_name items" by simp
  from Cons.IH[OF this, of "AList.update k (PDict item) result"]
  obtain res where res: "index_by_name items (AList.update k (PDict item) result) = Inr res"
    "\<And>k'. map_of res k' = (case last_named k' items of None \<Rightarrow> map_of (AList.update k (PDict item) result) k' | Some it \<Rightarrow> Some (PDict it))"
    "distinct (map fst (AList.update k (PDict item) result)) \<longrightarrow> distinct (map fst res)"
    by blast
  show ?case
    using res k
    by (auto simp: last_named_Cons update_conv' distinct_update split: option.splits)
qed

lemma item_key_raises: "item_key item = Inl exc \<Longrightarrow> exn_cls exc = KeyError \<or> exn_cls exc = TypeError"
  by (auto simp: item_key_def getitem_def split: option.splits elim!: hash_key.elims)

lemma index_by_name_raises:
  "index_by_name items result = Inl exc \<Longrightarrow> exn_cls exc = KeyError \<or> exn_cls exc = TypeError"
  by (induction items arbitrary: result) (auto split: sum.splits dest: item_key_raises)

lemma index_by_name_not_http:
  "index_by_name items result = Inl exc \<Longrightarrow> \<not> isinstance exc [HttpResponseError]"
  by (drule index_by_name_raises) (auto simp: isinstance_def)

lemma listing_run:
  assumes "is_listing c" and "sdk_listed (events env c w) = [items]"
  shows "outcome env c w = (case index_by_name items [] of Inl exc \<Rightarrow> Inl exc
                             | Inr result \<Rightarrow> Inr (PDict result))"
  using assms
  by (cases c)
    (auto simp: outcome_def events_def module_defs call_defs events_append listing_try_def
      isinstance_rnf_http
      split: prod.splits sum.splits if_splits dest: index_by_name_not_http)

lemma last_named_None: "last_named k items = None \<longleftrightarrow> (\<forall>item \<in> set items. item_key item \<noteq> Inr k)"
proof -
  have "last_named k items = None \<longleftrightarrow> filter (\<lambda>item. item_key item = Inr k) items = []"
    by (simp add: last_named_def split: list.splits)
  then show ?thesis by (simp add: filter_empty_conv)
qed

lemma index_by_name_empty:
  assumes "list_all has_name items"
  shows "\<exists>res. index_by_name items [] = Inr res
           \<and> (\<forall>k. map_of res k = map_option PDict (last_named k items))
           \<and> distinct (map fst res)"
proof -
  from index_by_name_result[OF assms, of "[]"] obtain res where
    res: "index_by_name items [] = Inr res"
      "\<forall>k. map_of res k =
         (case last_named k items of None \<Rightarrow> map_of [] k | Some it \<Rightarrow> Some (PDict it))"
      "distinct (map fst res)"
    by auto
  have "(case last_named k items of None \<Rightarrow> map_of [] k | Some it \<Rightarrow> Some (PDict it))
          = map_option PDict (last_named k items)" for k :: key
    by (simp split: option.splits)
  with res show ?thesis by auto
qed

lemma last_named_Some:
  "last_named k items = Some item \<Longrightarrow> item \<in> set items \<and> item_key item = Inr k"
proof -
  assume a: "last_named k items = Some item"
  then have ne: "filter (\<lambda>item. item_key item = Inr k) items \<noteq> []"
    and l: "item = last (filter (\<lambda>item. item_key item = Inr k) items)"
    by (auto simp: last_named_def split: list.splits)
  from last_in_set[OF ne] l show ?thesis by auto
qed

lemma last_named_nth:
  "i < length items \<Longrightarrow> item_key (items ! i) = Inr k \<Longrightarrow>
   (\<forall>j. i < j \<and> j < length items \<longrightarrow> item_key (items ! j) \<noteq> Inr k) \<Longrightarrow>
   last_named k items = Some (items ! i)"
proof (induction items arbitrary: i)
  case Nil
  then show ?case by simp
next
  case (Cons x xs)
  show ?case
  proof (cases i)
    case 0
    have "\<forall>item \<in> set xs. item_key item \<noteq> Inr k"
    proof
      fix item assume "item \<in> set xs"
      then obtain j where j: "j < length xs" "xs ! j = item" by (auto simp: in_set_conv_nth)
      with Cons.prems(3) 0 have "item_key ((x # xs) ! Suc j) \<noteq> Inr k" by auto
      with j show "item_key item \<noteq> Inr k" by simp
    qed
    then have "last_named k xs = None" by (simp add: last_named_None)
    with Cons.prems 0 show ?thesis by (simp add: last_named_Cons)
  next
    case (Suc i')
    have "\<forall>j. i' < j \<and> j < length xs \<longrightarrow> item_key (xs ! j) \<noteq> Inr k"
    proof (intro allI impI)
      fix j assume "i' < j \<and> j < length xs"
      with Cons.prems(3) Suc have "item_key ((x # xs) ! Suc j) \<noteq> Inr k" by auto
      then show "item_key (xs ! j) \<noteq> Inr k" by simp
    qed
    with Cons.IH[of i'] Cons.prems Suc have "last_named k xs = Some (xs ! i')" by simp
    with Suc show ?thesis by (simp add: last_named_Cons)
  qed
qed

text \<open>
  The module's own \<^verbatim>\<open>virtual_machine_get\<close>, which the host runtime offers as
  \<^verbatim>\<open>azurerm_compute.virtual_machine_get\<close>, returns a mapping whenever it returns.
\<close>

lemma virtual_machine_get_returns_mapping:
  "outcome env (Virtual_machine_get n g kw) w = Inr v \<Longrightarrow> \<exists>d. v = PDict d"
  by (auto simp: outcome_def virtual_machine_get_def call_defs error_dict_def Let_def
      split: prod.splits sum.splits if_splits)


section \<open>The claims\<close>

subsection \<open>C1: HTTP errors of the SDK call\<close>

text \<open>
  C1, amended. Whenever the SDK client call of a module function raises
  \<^verbatim>\<open>ResourceNotFoundError\<close> or \<^verbatim>\<open>HttpResponseError\<close>, the function does not raise: it
  calls the shared cloud-error logger with the exception's string form and returns the
  mapping \<^verbatim>\<open>{"error": <message>}\<close>, except \<^verbatim>\<open>availability_set_delete\<close> and
  \<^verbatim>\<open>virtual_machine_generalize\<close>, which return the boolean \<^verbatim>\<open>False\<close>.
\<close>

theorem http_error_caught_logged_returned:
  assumes "exc \<in> set (sdk_raised (events env c w))"
    and "isinstance exc [ResourceNotFoundError, HttpResponseError]"
  shows "outcome env c w = Inr (if returns_flag c then PBool False else error_dict (str_exn exc))
       \<and> str_exn exc \<in> snd ` set (cloud_logs (events env c w))"
proof -
  from assms(2) have http: "isinstance exc [HttpResponseError]"
    by (simp add: isinstance_rnf_http)
  from http_error_handled(2)[OF assms(1) http]
  have "str_exn exc \<in> set (map snd (cloud_logs (events env c w)))" by simp
  with http_error_handled(1)[OF assms(1) http] show ?thesis by simp
qed

text \<open>
  \<^verbatim>\<open>availability_set_get\<close> against a client that raises \<^verbatim>\<open>ResourceNotFoundError\<close>,
  and \<^verbatim>\<open>virtual_machine_generalize\<close> against one that raises \<^verbatim>\<open>HttpResponseError\<close>.
\<close>

theorem http_error_caught_logged_returned_witness:
  "Exn ResourceNotFoundError ''Not found''
     \<in> set (sdk_raised (events env_not_found
              (Availability_set_get (PStr ''testset'') (PStr ''testgroup'') []) 0))
   \<and> isinstance (Exn ResourceNotFoundError ''Not found'') [ResourceNotFoundError, HttpResponseError]
   \<and> outcome env_not_found (Availability_set_get (PStr ''testset'') (PStr ''testgroup'') []) 0
       = Inr (PDict [(KStr ''error'', PStr ''Not found'')])
   \<and> ''Not found'' \<in> snd ` set (cloud_logs (events env_not_found
              (Availability_set_get (PStr ''testset'') (PStr ''testgroup'') []) 0))
   \<and> Exn HttpResponseError ''Operation failed''
     \<in> set (sdk_raised (events env_http_error
              (Virtual_machine_generalize (PStr ''testvm'') (PStr ''testgroup'') []) 0))
   \<and> outcome env_http_error (Virtual_machine_generalize (PStr ''testvm'') (PStr ''testgroup'') []) 0
       = Inr (PBool False)"
proof -
  let ?c = "Availability_set_get (PStr ''testset'') (PStr ''testgroup'') []"
  let ?d = "Virtual_machine_generalize (PStr ''testvm'') (PStr ''testgroup'') []"
  have a: "Exn ResourceNotFoundError ''Not found'' \<in> set (sdk_raised (events env_not_found ?c 0))"
    by (simp add: run_defs demo_defs)
  have b: "isinstance (Exn ResourceNotFoundError ''Not found'') [ResourceNotFoundError, HttpResponseError]"
    by (simp add: isinstance_def)
  have c: "Exn HttpResponseError ''Operation failed'' \<in> set (sdk_raised (events env_http_error ?d 0))"
    by (simp add: run_defs demo_defs)
  have d: "isinstance (Exn HttpResponseError ''Operation failed'') [ResourceNotFoundError, HttpResponseError]"
    by (simp add: isinstance_def)
  from http_error_caught_logged_returned[OF a b] http_error_caught_logged_returned[OF c d] a b c
  show ?thesis by (simp add: error_dict_def)
qed

text \<open>
  C1 as stated fails: the SDK call of \<^verbatim>\<open>availability_set_delete\<close> raises
  \<^verbatim>\<open>HttpResponseError\<close>, and the function returns \<^verbatim>\<open>False\<close>, not an error mapping.
\<close>

theorem delete_http_error_returns_False:
  "sdk_raised (events env_http_error
      (Availability_set_delete (PStr ''testset'') (PStr ''testgroup'') []) 0)
     = [Exn HttpResponseError ''Operation failed'']
   \<and> outcome env_http_error (Availability_set_delete (PStr ''testset'') (PStr ''testgroup'') []) 0
       = Inr (PBool False)
   \<and> outcome env_http_error (Availability_set_delete (PStr ''testset'') (PStr ''testgroup'') []) 0
       \<noteq> Inr (PDict [(KStr ''error'', PStr ''Operation failed'')])"
  by (simp add: run_defs demo_defs)

subsection \<open>C2: which failures become returned values\<close>

text \<open>
  C2, amended. For every module function, the failures its handlers name end in a returned
  error value (an error mapping or the boolean \<^verbatim>\<open>False\<close>): a
  \<^verbatim>\<open>ResourceNotFoundError\<close> or \<^verbatim>\<open>HttpResponseError\<close> raised by the SDK client call,
  and in \<^verbatim>\<open>availability_set_create_or_update\<close> also a \<^verbatim>\<open>SerializationError\<close> of
  the SDK call, a \<^verbatim>\<open>TypeError\<close> of the object-model builder and an error mapping from
  the resource-group lookup. An exception raised by the client factory is not caught: the
  function raises it.
\<close>

theorem expected_failures_returned:
  "(exc \<in> set (client_raised (events env c w)) \<longrightarrow> outcome env c w = Inl exc)
   \<and> (exc \<in> set (sdk_raised (events env c w))
        \<and> isinstance exc [ResourceNotFoundError, HttpResponseError] \<longrightarrow>
          (\<exists>v. outcome env c w = Inr v \<and> is_error_value v))
   \<and> (exc \<in> set (sdk_raised (events env c w)) \<and> isinstance exc [SerializationError]
        \<and> is_create c \<longrightarrow> (\<exists>v. outcome env c w = Inr v \<and> is_error_value v))
   \<and> (exc \<in> set (builder_raised (events env c w)) \<and> isinstance exc [TypeError] \<longrightarrow>
          (\<exists>v. outcome env c w = Inr v \<and> is_error_value v))
   \<and> (Inr rg_props \<in> set (rg_lookups (events env c w))
        \<and> map_of rg_props (KStr ''error'') \<noteq> None \<longrightarrow> outcome env c w = Inr (PBool False))"
proof (intro conjI impI)
  assume "exc \<in> set (client_raised (events env c w))"
  then show "outcome env c w = Inl exc" by (rule client_raised_propagates)
next
  assume a: "exc \<in> set (sdk_raised (events env c w))
        \<and> isinstance exc [ResourceNotFoundError, HttpResponseError]"
  then have "outcome env c w = Inr (if returns_flag c then PBool False else error_dict (str_exn exc))"
    by (intro http_error_handled(1)) (simp_all add: isinstance_rnf_http)
  then show "\<exists>v. outcome env c w = Inr v \<and> is_error_value v"
    by (simp add: is_error_value_error_dict)
next
  assume a: "exc \<in> set (sdk_raised (events env c w)) \<and> isinstance exc [SerializationError]
        \<and> is_create c"
  then obtain n g kw where c: "c = Availability_set_create_or_update n g kw"
    by (cases c) simp_all
  from create_serialization[OF invoke_create[unfolded invoke.simps], of exc env n g kw w] a c
  show "\<exists>v. outcome env c w = Inr v \<and> is_error_value v"
    by (simp add: is_error_value_error_dict)
next
  assume a: "exc \<in> set (builder_raised (events env c w)) \<and> isinstance exc [TypeError]"
  with only_create_builds[of c env w] obtain n g kw where c: "c = Availability_set_create_or_update n g kw"
    by (cases c) auto
  from create_builder_type_error[OF invoke_create[unfolded invoke.simps], of exc env n g kw w] a c
  show "\<exists>v. outcome env c w = Inr v \<and> is_error_value v"
    by (simp add: is_error_value_error_dict)
next
  assume a: "Inr rg_props \<in> set (rg_lookups (events env c w))
        \<and> map_of rg_props (KStr ''error'') \<noteq> None"
  with only_create_builds[of c env w] obtain n g kw where c: "c = Availability_set_create_or_update n g kw"
    by (cases c) auto
  from create_rg_error[OF invoke_create[unfolded invoke.simps], of rg_props env n g kw w] a c
  show "outcome env c w = Inr (PBool False)"
    by simp
qed

text \<open>
  One run for each part: the factory raises; the SDK call raises an HTTP error; it raises
  \<^verbatim>\<open>SerializationError\<close>; the builder raises \<^verbatim>\<open>TypeError\<close>; the resource group is
  not found.
\<close>

theorem expected_failures_returned_witness:
  "outcome env_no_client (Virtual_machine_start (PStr ''testvm'') (PStr ''testgroup'') []) 0
     = Inl (Exn SaltInvocationError ''A subscription_id must be specified'')
   \<and> outcome env_http_error (Virtual_machine_start (PStr ''testvm'') (PStr ''testgroup'') []) 0
     = Inr (PDict [(KStr ''error'', PStr ''Operation failed'')])
   \<and> outcome env_serialization_error
       (Availability_set_create_or_update (PStr ''testset'') (PStr ''testgroup'') []) 0
     = Inr (PDict [(KStr ''error'', PStr ''The object model could not be parsed. (bad sku)'')])
   \<and> outcome env_type_error
       (Availability_set_create_or_update (PStr ''testset'') (PStr ''testgroup'') []) 0
     = Inr (PDict [(KStr ''error'', PStr ''The object model could not be built. (bad keyword)'')])
   \<and> outcome env_no_group
       (Availability_set_create_or_update (PStr ''testset'') (PStr ''testgroup'') []) 0
     = Inr (PBool False)"
proof -
  let ?start = "Virtual_machine_start (PStr ''testvm'') (PStr ''testgroup'') []"
  let ?create = "Availability_set_create_or_update (PStr ''testset'') (PStr ''testgroup'') []"
  have a: "Exn SaltInvocationError ''A subscription_id must be specified''
             \<in> set (client_raised (events env_no_client ?start 0))"
    by (simp add: run_defs demo_defs)
  have b: "Exn HttpResponseError ''Operation failed'' \<in> set (sdk_raised (events env_http_error ?start 0))
           \<and> isinstance (Exn HttpResponseError ''Operation failed'') [ResourceNotFoundError, HttpResponseError]"
    by (simp add: run_defs demo_defs)
  have c: "Exn SerializationError ''bad sku'' \<in> set (sdk_raised (events env_serialization_error ?create 0))
           \<and> isinstance (Exn SerializationError ''bad sku'') [SerializationError] \<and> is_create ?create"
    by (simp add: run_defs demo_defs)
  have d: "Exn TypeError ''bad keyword'' \<in> set (builder_raised (events env_type_error ?create 0))
           \<and> isinstance (Exn TypeError ''bad keyword'') [TypeError]"
    by (simp add: run_defs demo_defs)
  have e: "Inr [(KStr ''error'', PStr ''Resource group not found'')]
             \<in> set (rg_lookups (events env_no_group ?create 0))
           \<and> map_of [(KStr ''error'', PStr ''Resource group not found'')] (KStr ''error'') \<noteq> None"
    by (simp add: run_defs demo_defs)
  have 1: "outcome env_no_client ?start 0 = Inl (Exn SaltInvocationError ''A subscription_id must be specified'')"
    using expected_failures_returned[of "Exn SaltInvocationError ''A subscription_id must be specified''"
        env_no_client ?start 0] a by blast
  have 2: "\<exists>v. outcome env_http_error ?start 0 = Inr v \<and> is_error_value v"
    using expected_failures_returned[of "Exn HttpResponseError ''Operation failed''"
        env_http_error ?start 0] b by blast
  have 3: "\<exists>v. outcome env_serialization_error ?create 0 = Inr v \<and> is_error_value v"
    using expected_failures_returned[of "Exn SerializationError ''bad sku''"
        env_serialization_error ?create 0] c by blast
  have 4: "\<exists>v. outcome env_type_error ?create 0 = Inr v \<and> is_error_value v"
    using expected_failures_returned[of "Exn TypeError ''bad keyword''" env_type_error ?create 0] d
    by blast
  have 5: "outcome env_no_group ?create 0 = Inr (PBool False)"
    using expected_failures_returned[of _ env_no_group ?create 0
        "[(KStr ''error'', PStr ''Resource group not found'')]"] e by blast
  from 1 2 3 4 5 show ?thesis
    by (simp add: run_defs demo_defs)
qed

text \<open>
  C2 as stated fails: the client factory raises and \<^verbatim>\<open>availability_set_delete\<close>, which
  calls it outside its \<^verbatim>\<open>try\<close> block, raises the same exception.
\<close>

theorem client_factory_exception_propagates:
  "outcome env_no_client (Availability_set_delete (PStr ''testset'') (PStr ''testgroup'') []) 0
     = Inl (Exn SaltInvocationError ''A subscription_id must be specified'')"
  by (simp add: run_defs demo_defs)

subsection \<open>C3: the location of the resource group\<close>

text \<open>
  C3. When \<^verbatim>\<open>availability_set_create_or_update\<close> is called without \<^verbatim>\<open>"location"\<close>
  among its keyword arguments, it looks the resource group up exactly once. If the lookup
  returns an error mapping, the function returns \<^verbatim>\<open>False\<close>, calls no SDK method and
  does not reach the client factory. If it returns a mapping that is no error mapping, its
  \<^verbatim>\<open>"location"\<close> is stored in the keyword arguments: the client factory and the
  object-model builder receive them with that location.
\<close>

theorem resource_group_location_adopted:
  assumes "map_of kwargs ''location'' = None"
  shows "length (rg_lookups (events env (Availability_set_create_or_update name g kwargs) w)) = 1
    \<and> (\<forall>rg_props.
         rg_lookups (events env (Availability_set_create_or_update name g kwargs) w) = [Inr rg_props] \<longrightarrow>
         (if map_of rg_props (KStr ''error'') \<noteq> None
          then outcome env (Availability_set_create_or_update name g kwargs) w = Inr (PBool False)
             \<and> sdk_calls (events env (Availability_set_create_or_update name g kwargs) w) = []
             \<and> client_kwargs (events env (Availability_set_create_or_update name g kwargs) w) = []
          else (\<forall>location. map_of rg_props (KStr ''location'') = Some location \<longrightarrow>
             client_kwargs (events env (Availability_set_create_or_update name g kwargs) w)
               = [AList.update ''location'' location kwargs]
             \<and> list_all (\<lambda>kw. map_of kw ''location'' = Some location)
                 (builder_kwargs (events env (Availability_set_create_or_update name g kwargs) w)))))"
proof -
  note run = invoke_create[unfolded invoke.simps, of env name g kwargs w]
  show ?thesis
    using create_no_location(1)[OF run assms] create_no_location(2)[OF run assms]
      create_no_location(3)[OF run assms]
    by auto
qed

text \<open>
  A call with no keyword arguments: once with a resource group in \<^verbatim>\<open>eastus\<close>, once with
  a resource group that is not found.
\<close>

theorem resource_group_location_adopted_witness:
  "map_of ([] :: kwargs) ''location'' = None
   \<and> rg_lookups (events env_ok (Availability_set_create_or_update (PStr ''testset'') (PStr ''testgroup'') []) 0)
       = [Inr [(KStr ''name'', PStr ''testgroup''), (KStr ''location'', PStr ''eastus'')]]
   \<and> client_kwargs (events env_ok (Availability_set_create_or_update (PStr ''testset'') (PStr ''testgroup'') []) 0)
       = [[(''location'', PStr ''eastus'')]]
   \<and> builder_kwargs (events env_ok (Availability_set_create_or_update (PStr ''testset'') (PStr ''testgroup'') []) 0)
       = [[(''location'', PStr ''eastus'')]]
   \<and> rg_lookups (events env_no_group (Availability_set_create_or_update (PStr ''testset'') (PStr ''testgroup'') []) 0)
       = [Inr [(KStr ''error'', PStr ''Resource group not found'')]]
   \<and> outcome env_no_group (Availability_set_create_or_update (PStr ''testset'') (PStr ''testgroup'') []) 0
       = Inr (PBool False)
   \<and> sdk_calls (events env_no_group (Availability_set_create_or_update (PStr ''testset'') (PStr ''testgroup'') []) 0)
       = []"
proof -
  have h: "map_of ([] :: kwargs) ''location'' = None" by simp
  show ?thesis
    using resource_group_location_adopted[OF h, of env_ok "PStr ''testset''" "PStr ''testgroup''" 0]
      resource_group_location_adopted[OF h, of env_no_group "PStr ''testset''" "PStr ''testgroup''" 0]
    by (simp add: run_defs demo_defs)
qed

subsection \<open>C4: VM names become id references\<close>

text \<open>
  C4. When \<^verbatim>\<open>"virtual_machines"\<close> holds a list of names,
  \<^verbatim>\<open>availability_set_create_or_update\<close> looks each name up through the VM-get function,
  in order, and the object-model builder receives under \<^verbatim>\<open>"virtual_machines"\<close> the list
  of \<^verbatim>\<open>{"id": <id>}\<close> objects of the lookups that returned no error mapping, in the same
  order. The builder is reached once the client factory has returned and every lookup has
  returned an error mapping or a mapping with an id.
\<close>

theorem virtual_machine_names_resolved:
  assumes "map_of kwargs ''virtual_machines'' = Some (PList names)"
  shows "(client_kwargs (events env (Availability_set_create_or_update name g kwargs) w) \<noteq> []
          \<and> client_raised (events env (Availability_set_create_or_update name g kwargs) w) = []
          \<and> list_all lookup_ok (vm_lookups (events env (Availability_set_create_or_update name g kwargs) w))
          \<longrightarrow> length (builder_kwargs (events env (Availability_set_create_or_update name g kwargs) w)) = 1)
       \<and> (\<forall>kw2. builder_kwargs (events env (Availability_set_create_or_update name g kwargs) w) = [kw2] \<longrightarrow>
            map fst (vm_lookups (events env (Availability_set_create_or_update name g kwargs) w)) = names
            \<and> list_all lookup_ok (vm_lookups (events env (Availability_set_create_or_update name g kwargs) w))
            \<and> map_of kw2 ''virtual_machines''
                = Some (PList (List.map_filter (id_ref env)
                    (returned (vm_lookups (events env (Availability_set_create_or_update name g kwargs) w))))))"
  using create_builder[OF invoke_create[unfolded invoke.simps], of env name g kwargs w] assms
  by (auto simp: linked_def update_conv')

text \<open>
  Three names, the second of which is not found: two lookups contribute an id.
\<close>

theorem virtual_machine_names_resolved_witness:
  "map_of demo_names ''virtual_machines'' = Some (PList [PStr ''vm1'', PStr ''gone'', PStr ''vm1''])
   \<and> map fst (vm_lookups (events env_ok
         (Availability_set_create_or_update (PStr ''testset'') (PStr ''testgroup'') demo_names) 0))
       = [PStr ''vm1'', PStr ''gone'', PStr ''vm1'']
   \<and> builder_kwargs (events env_ok
         (Availability_set_create_or_update (PStr ''testset'') (PStr ''testgroup'') demo_names) 0)
       = [[(''virtual_machines'',
             PList [PDict [(KStr ''id'', PStr ''/subscriptions/0/vm1'')],
                    PDict [(KStr ''id'', PStr ''/subscriptions/0/vm1'')]]),
           (''location'', PStr ''eastus'')]]"
proof -
  let ?evs = "events env_ok
     (Availability_set_create_or_update (PStr ''testset'') (PStr ''testgroup'') demo_names) 0"
  let ?kw2 = "[(''virtual_machines'',
             PList [PDict [(KStr ''id'', PStr ''/subscriptions/0/vm1'')],
                    PDict [(KStr ''id'', PStr ''/subscriptions/0/vm1'')]]),
           (''location'', PStr ''eastus'')]"
  have h: "map_of demo_names ''virtual_machines'' = Some (PList [PStr ''vm1'', PStr ''gone'', PStr ''vm1''])"
    by (simp add: demo_names_def)
  have b: "builder_kwargs ?evs = [?kw2]"
    by (simp add: run_defs demo_defs demo_names_def)
  from virtual_machine_names_resolved[OF h, of env_ok "PStr ''testset''" "PStr ''testgroup''" 0] b
  have "map fst (vm_lookups ?evs) = [PStr ''vm1'', PStr ''gone'', PStr ''vm1'']"
    by blast
  with h b show ?thesis by simp
qed

subsection \<open>C5: the logger is called once\<close>

text \<open>
  C5, amended. Whenever the SDK client call of a module function raises
  \<^verbatim>\<open>HttpResponseError\<close> or its subclass \<^verbatim>\<open>ResourceNotFoundError\<close>, the shared error
  logger is called exactly once, with the exception message, and in every function other
  than \<^verbatim>\<open>virtual_machine_convert_to_managed_disks\<close> with the provider name
  \<^verbatim>\<open>"compute"\<close>; the function returns \<^verbatim>\<open>{"error": <message>}\<close>, or \<^verbatim>\<open>False\<close> in
  \<^verbatim>\<open>availability_set_delete\<close> and \<^verbatim>\<open>virtual_machine_generalize\<close>. A
  \<^verbatim>\<open>SerializationError\<close> raised by the SDK call of
  \<^verbatim>\<open>availability_set_create_or_update\<close> is returned as
  \<^verbatim>\<open>{"error": "The object model could not be parsed. (<message>)"}\<close> and the logger is
  not called.
\<close>

theorem cloud_error_logged_once:
  assumes "exc \<in> set (sdk_raised (events env c w))"
  shows "(isinstance exc [ResourceNotFoundError, HttpResponseError] \<longrightarrow>
            outcome env c w = Inr (if returns_flag c then PBool False else error_dict (str_exn exc))
          \<and> map snd (cloud_logs (events env c w)) = [str_exn exc]
          \<and> (\<not> is_convert c \<longrightarrow> cloud_logs (events env c w) = [(''compute'', str_exn exc)]))
       \<and> (isinstance exc [SerializationError] \<and> is_create c \<longrightarrow>
            outcome env c w
              = Inr (error_dict (''The object model could not be parsed. ('' @ str_exn exc @ '')''))
          \<and> cloud_logs (events env c w) = [])"
proof (intro conjI impI)
  assume "isinstance exc [ResourceNotFoundError, HttpResponseError]"
  then have http: "isinstance exc [HttpResponseError]" by (simp add: isinstance_rnf_http)
  show "outcome env c w = Inr (if returns_flag c then PBool False else error_dict (str_exn exc))"
    by (rule http_error_handled(1)[OF assms http])
  show "map snd (cloud_logs (events env c w)) = [str_exn exc]"
    by (rule http_error_handled(2)[OF assms http])
  show "cloud_logs (events env c w) = [(''compute'', str_exn exc)]" if "\<not> is_convert c"
    by (rule http_error_handled(3)[OF assms http that])
next
  assume a: "isinstance exc [SerializationError] \<and> is_create c"
  then obtain n g kw where c: "c = Availability_set_create_or_update n g kw"
    by (cases c) simp_all
  from create_serialization[OF invoke_create[unfolded invoke.simps], of exc env n g kw w] a c assms
  show "outcome env c w
          = Inr (error_dict (''The object model could not be parsed. ('' @ str_exn exc @ '')''))"
    and "cloud_logs (events env c w) = []"
    by simp_all
qed

text \<open>
  \<^verbatim>\<open>virtual_machine_restart\<close> against a client that raises \<^verbatim>\<open>HttpResponseError\<close>, and
  \<^verbatim>\<open>availability_set_create_or_update\<close> against one that raises
  \<^verbatim>\<open>SerializationError\<close>.
\<close>

theorem cloud_error_logged_once_witness:
  "Exn HttpResponseError ''Operation failed''
     \<in> set (sdk_raised (events env_http_error
              (Virtual_machine_restart (PStr ''testvm'') (PStr ''testgroup'') []) 0))
   \<and> outcome env_http_error (Virtual_machine_restart (PStr ''testvm'') (PStr ''testgroup'') []) 0
       = Inr (PDict [(KStr ''error'', PStr ''Operation failed'')])
   \<and> cloud_logs (events env_http_error
         (Virtual_machine_restart (PStr ''testvm'') (PStr ''testgroup'') []) 0)
       = [(''compute'', ''Operation failed'')]
   \<and> Exn SerializationError ''bad sku''
     \<in> set (sdk_raised (events env_serialization_error
              (Availability_set_create_or_update (PStr ''testset'') (PStr ''testgroup'') []) 0))
   \<and> cloud_logs (events env_serialization_error
         (Availability_set_create_or_update (PStr ''testset'') (PStr ''testgroup'') []) 0) = []"
proof -
  let ?restart = "Virtual_machine_restart (PStr ''testvm'') (PStr ''testgroup'') []"
  let ?create = "Availability_set_create_or_update (PStr ''testset'') (PStr ''testgroup'') []"
  have a: "Exn HttpResponseError ''Operation failed'' \<in> set (sdk_raised (events env_http_error ?restart 0))"
    by (simp add: run_defs demo_defs)
  have b: "Exn SerializationError ''bad sku'' \<in> set (sdk_raised (events env_serialization_error ?create 0))"
    by (simp add: run_defs demo_defs)
  have i: "isinstance (Exn HttpResponseError ''Operation failed'') [ResourceNotFoundError, HttpResponseError]"
    "isinstance (Exn SerializationError ''bad sku'') [SerializationError]"
    "\<not> is_convert ?restart" "\<not> returns_flag ?restart" "is_create ?create"
    by (simp_all add: isinstance_def)
  from cloud_error_logged_once[OF a] cloud_error_logged_once[OF b] i a b
  show ?thesis by (simp add: error_dict_def)
qed

text \<open>
  C5 as stated fails: the SDK call of \<^verbatim>\<open>availability_set_create_or_update\<close> raises
  \<^verbatim>\<open>SerializationError\<close> with the message \<^verbatim>\<open>bad sku\<close>; the function returns another
  message and the logger is not called.
\<close>

theorem serialization_error_rewritten_not_logged:
  "sdk_raised (events env_serialization_error
      (Availability_set_create_or_update (PStr ''testset'') (PStr ''testgroup'') []) 0)
     = [Exn SerializationError ''bad sku'']
   \<and> outcome env_serialization_error
       (Availability_set_create_or_update (PStr ''testset'') (PStr ''testgroup'') []) 0
     \<noteq> Inr (PDict [(KStr ''error'', PStr ''bad sku'')])
   \<and> cloud_logs (events env_serialization_error
       (Availability_set_create_or_update (PStr ''testset'') (PStr ''testgroup'') []) 0) = []"
  by (simp add: run_defs demo_defs)

text \<open>
  The logger call of \<^verbatim>\<open>virtual_machine_convert_to_managed_disks\<close> at line 390 names the
  provider \<^verbatim>\<open>"comput"\<close>, where the sixteen other functions pass \<^verbatim>\<open>"compute"\<close>.
\<close>

lemma convert_to_managed_disks_logs_comput:
  "cloud_logs (events env_http_error
      (Virtual_machine_convert_to_managed_disks (PStr ''testvm'') (PStr ''testgroup'') []) 0)
     = [(''comput'', ''Operation failed'')]"
  by (simp add: run_defs demo_defs)

subsection \<open>C6: errors of the object model\<close>

text \<open>
  C6. In \<^verbatim>\<open>availability_set_create_or_update\<close>, a \<^verbatim>\<open>TypeError\<close> raised by the
  object-model builder is returned as
  \<^verbatim>\<open>{"error": "The object model could not be built. (<detail>)"}\<close>, and a
  \<^verbatim>\<open>SerializationError\<close> raised by the SDK call as
  \<^verbatim>\<open>{"error": "The object model could not be parsed. (<detail>)"}\<close>, with the exception's
  string form as the detail.
\<close>

theorem object_model_errors_surfaced:
  "(exc \<in> set (builder_raised (events env (Availability_set_create_or_update name g kwargs) w))
      \<and> isinstance exc [TypeError] \<longrightarrow>
        outcome env (Availability_set_create_or_update name g kwargs) w
          = Inr (PDict [(KStr ''error'',
                  PStr (''The object model could not be built. ('' @ str_exn exc @ '')''))]))
   \<and> (exc \<in> set (sdk_raised (events env (Availability_set_create_or_update name g kwargs) w))
      \<and> isinstance exc [SerializationError] \<longrightarrow>
        outcome env (Availability_set_create_or_update name g kwargs) w
          = Inr (PDict [(KStr ''error'',
                  PStr (''The object model could not be parsed. ('' @ str_exn exc @ '')''))]))"
  using create_builder_type_error[OF invoke_create[unfolded invoke.simps], of exc env name g kwargs w]
    create_serialization[OF invoke_create[unfolded invoke.simps], of exc env name g kwargs w]
  by (simp add: error_dict_def)

theorem object_model_errors_surfaced_witness:
  "Exn TypeError ''bad keyword''
     \<in> set (builder_raised (events env_type_error
          (Availability_set_create_or_update (PStr ''testset'') (PStr ''testgroup'') []) 0))
   \<and> outcome env_type_error
       (Availability_set_create_or_update (PStr ''testset'') (PStr ''testgroup'') []) 0
     = Inr (PDict [(KStr ''error'', PStr ''The object model could not be built. (bad keyword)'')])
   \<and> Exn SerializationError ''bad sku''
     \<in> set (sdk_raised (events env_serialization_error
          (Availability_set_create_or_update (PStr ''testset'') (PStr ''testgroup'') []) 0))
   \<and> outcome env_serialization_error
       (Availability_set_create_or_update (PStr ''testset'') (PStr ''testgroup'') []) 0
     = Inr (PDict [(KStr ''error'', PStr ''The object model could not be parsed. (bad sku)'')])"
proof -
  let ?create = "Availability_set_create_or_update (PStr ''testset'') (PStr ''testgroup'') []"
  have a: "Exn TypeError ''bad keyword'' \<in> set (builder_raised (events env_type_error ?create 0))
           \<and> isinstance (Exn TypeError ''bad keyword'') [TypeError]"
    by (simp add: run_defs demo_defs)
  have b: "Exn SerializationError ''bad sku'' \<in> set (sdk_raised (events env_serialization_error ?create 0))
           \<and> isinstance (Exn SerializationError ''bad sku'') [SerializationError]"
    by (simp add: run_defs demo_defs)
  from object_model_errors_surfaced[of "Exn TypeError ''bad keyword''" env_type_error
      "PStr ''testset''" "PStr ''testgroup''" "[]" 0] a
  have 1: "outcome env_type_error ?create 0
     = Inr (PDict [(KStr ''error'', PStr (''The object model could not be built. (''
          @ str_exn (Exn TypeError ''bad keyword'') @ '')''))])"
    by blast
  from object_model_errors_surfaced[of "Exn SerializationError ''bad sku''" env_serialization_error
      "PStr ''testset''" "PStr ''testgroup''" "[]" 0] b
  have 2: "outcome env_serialization_error ?create 0
     = Inr (PDict [(KStr ''error'', PStr (''The object model could not be parsed. (''
          @ str_exn (Exn SerializationError ''bad sku'') @ '')''))])"
    by blast
  from 1 2 a b show ?thesis by simp
qed

subsection \<open>C7: generalize returns a boolean\<close>

text \<open>
  C7. \<^verbatim>\<open>virtual_machine_generalize\<close> makes one plain SDK call, \<^verbatim>\<open>generalize\<close>, and no
  \<^verbatim>\<open>begin_*\<close> call. It returns \<^verbatim>\<open>True\<close> when that call returns and \<^verbatim>\<open>False\<close>
  when it raises \<^verbatim>\<open>HttpResponseError\<close>; it never returns a mapping.
\<close>

theorem generalize_returns_boolean:
  "(sdk_calls (events env (Virtual_machine_generalize name g kwargs) w) = []
      \<or> sdk_calls (events env (Virtual_machine_generalize name g kwargs) w)
           = [Virtual_machines_generalize g name])
   \<and> (sdk_returned (events env (Virtual_machine_generalize name g kwargs) w) \<noteq> [] \<longrightarrow>
         outcome env (Virtual_machine_generalize name g kwargs) w = Inr (PBool True))
   \<and> (exc \<in> set (sdk_raised (events env (Virtual_machine_generalize name g kwargs) w))
        \<and> isinstance exc [HttpResponseError] \<longrightarrow>
         outcome env (Virtual_machine_generalize name g kwargs) w = Inr (PBool False))
   \<and> (\<forall>d. outcome env (Virtual_machine_generalize name g kwargs) w \<noteq> Inr (PDict d))"
  using generalize_run[of env name g kwargs w]
    http_error_handled(1)[of exc env "Virtual_machine_generalize name g kwargs" w]
  by simp

theorem generalize_returns_boolean_witness:
  "sdk_returned (events env_ok (Virtual_machine_generalize (PStr ''testvm'') (PStr ''testgroup'') []) 0)
     \<noteq> []
   \<and> outcome env_ok (Virtual_machine_generalize (PStr ''testvm'') (PStr ''testgroup'') []) 0
     = Inr (PBool True)
   \<and> Exn HttpResponseError ''Operation failed''
     \<in> set (sdk_raised (events env_http_error
          (Virtual_machine_generalize (PStr ''testvm'') (PStr ''testgroup'') []) 0))
   \<and> outcome env_http_error (Virtual_machine_generalize (PStr ''testvm'') (PStr ''testgroup'') []) 0
     = Inr (PBool False)"
proof -
  let ?gen = "Virtual_machine_generalize (PStr ''testvm'') (PStr ''testgroup'') []"
  have a: "sdk_returned (events env_ok ?gen 0) \<noteq> []"
    by (simp add: run_defs demo_defs)
  have b: "Exn HttpResponseError ''Operation failed'' \<in> set (sdk_raised (events env_http_error ?gen 0))
           \<and> isinstance (Exn HttpResponseError ''Operation failed'') [HttpResponseError]"
    by (simp add: run_defs demo_defs)
  from generalize_returns_boolean[of env_ok "PStr ''testvm''" "PStr ''testgroup''" "[]" 0] a
  have 1: "outcome env_ok ?gen 0 = Inr (PBool True)" by blast
  from generalize_returns_boolean[of env_http_error "PStr ''testvm''" "PStr ''testgroup''" "[]" 0
      "Exn HttpResponseError ''Operation failed''"] b
  have 2: "outcome env_http_error ?gen 0 = Inr (PBool False)" by blast
  from 1 2 a b show ?thesis by simp
qed

subsection \<open>C8: listings are keyed by name\<close>

text \<open>
  C8, amended. When the paged SDK call of a listing function returns items that each have a
  \<^verbatim>\<open>"name"\<close>, the function returns a mapping that maps the name of each item to that
  item unless a later item of the sequence has the same name, and that holds nothing but
  items of the sequence under their names.
\<close>

theorem listing_keyed_by_name:
  assumes "is_listing c" and "sdk_listed (events env c w) = [items]" and "list_all has_name items"
  shows "\<exists>result. outcome env c w = Inr (PDict result)
     \<and> (\<forall>i k. i < length items \<and> item_key (items ! i) = Inr k
           \<and> (\<forall>j. i < j \<and> j < length items \<longrightarrow> item_key (items ! j) \<noteq> Inr k)
           \<longrightarrow> map_of result k = Some (PDict (items ! i)))
     \<and> (\<forall>k v. map_of result k = Some v \<longrightarrow>
           (\<exists>item \<in> set items. item_key item = Inr k \<and> v = PDict item))"
proof -
  from index_by_name_empty[OF assms(3)] obtain result where
    r: "index_by_name items [] = Inr result"
      "\<And>k. map_of result k = map_option PDict (last_named k items)"
    by auto
  have out: "outcome env c w = Inr (PDict result)"
    using listing_run[OF assms(1,2)] r(1) by simp
  have a: "map_of result k = Some (PDict (items ! i))"
    if "i < length items \<and> item_key (items ! i) = Inr k
           \<and> (\<forall>j. i < j \<and> j < length items \<longrightarrow> item_key (items ! j) \<noteq> Inr k)" for i k
    using last_named_nth[of i items k] that r(2)[of k] by simp
  have b: "\<exists>item \<in> set items. item_key item = Inr k \<and> v = PDict item"
    if "map_of result k = Some v" for k v
    using that r(2)[of k] by (auto dest: last_named_Some)
  from out a b show ?thesis by blast
qed

text \<open>A page with the names \<^verbatim>\<open>web\<close>, \<^verbatim>\<open>db\<close>, \<^verbatim>\<open>web\<close>: the second and third item are kept.\<close>

theorem listing_keyed_by_name_witness:
  "is_listing (Availability_sets_list_call (PStr ''testgroup'') [])
   \<and> sdk_listed (events env_ok (Availability_sets_list_call (PStr ''testgroup'') []) 0) = [demo_page]
   \<and> list_all has_name demo_page
   \<and> (\<exists>result. outcome env_ok (Availability_sets_list_call (PStr ''testgroup'') []) 0
                  = Inr (PDict result)
        \<and> map_of result (KStr ''db'') = Some (PDict (demo_page ! 1))
        \<and> map_of result (KStr ''web'') = Some (PDict (demo_page ! 2)))"
proof -
  let ?c = "Availability_sets_list_call (PStr ''testgroup'') []"
  have a: "is_listing ?c" by simp
  have b: "sdk_listed (events env_ok ?c 0) = [demo_page]"
    by (simp add: run_defs demo_defs)
  have c: "list_all has_name demo_page"
    by (simp add: has_name_def item_key_def getitem_def demo_page_def)
  from listing_keyed_by_name[OF a b c] obtain result where
    r: "outcome env_ok ?c 0 = Inr (PDict result)"
      "\<And>i k. i < length demo_page \<Longrightarrow> item_key (demo_page ! i) = Inr k
           \<Longrightarrow> (\<forall>j. i < j \<and> j < length demo_page \<longrightarrow> item_key (demo_page ! j) \<noteq> Inr k)
           \<Longrightarrow> map_of result k = Some (PDict (demo_page ! i))"
    by blast
  have len: "length demo_page = 3" by (simp add: demo_page_def)
  have k1: "item_key (demo_page ! 1) = Inr (KStr ''db'')"
    and k2: "item_key (demo_page ! 2) = Inr (KStr ''web'')"
    by (simp_all add: item_key_def getitem_def demo_page_def)
  have later1: "\<forall>j. 1 < j \<and> j < length demo_page \<longrightarrow> item_key (demo_page ! j) \<noteq> Inr (KStr ''db'')"
  proof (intro allI impI)
    fix j assume "1 < j \<and> j < length demo_page"
    with len have "j = 2" by simp
    with k2 show "item_key (demo_page ! j) \<noteq> Inr (KStr ''db'')" by simp
  qed
  have later2: "\<forall>j. 2 < j \<and> j < length demo_page \<longrightarrow> item_key (demo_page ! j) \<noteq> Inr (KStr ''web'')"
    using len by auto
  have i1: "1 < length demo_page" and i2: "2 < length demo_page"
    using len by simp_all
  have "map_of result (KStr ''db'') = Some (PDict (demo_page ! 1))"
    by (rule r(2)[OF i1 k1 later1])
  moreover have "map_of result (KStr ''web'') = Some (PDict (demo_page ! 2))"
    by (rule r(2)[OF i2 k2 later2])
  ultimately show ?thesis using a b c r(1) by blast
qed

text \<open>
  C8 as stated fails: in the subscription-wide listing of that page the first item has the
  name \<^verbatim>\<open>web\<close>, and the mapping returned holds the third item under \<^verbatim>\<open>web\<close>.
\<close>

theorem first_of_two_equal_names_is_lost:
  "sdk_listed (events env_ok (Virtual_machines_list_all_call []) 0) = [demo_page]
   \<and> getitem (demo_page ! 0) ''name'' = Inr (PStr ''web'')
   \<and> outcome env_ok (Virtual_machines_list_all_call []) 0
       = Inr (PDict [(KStr ''web'', PDict (demo_page ! 2)), (KStr ''db'', PDict (demo_page ! 1))])
   \<and> map_of [(KStr ''web'', PDict (demo_page ! 2)), (KStr ''db'', PDict (demo_page ! 1))] (KStr ''web'')
       \<noteq> Some (PDict (demo_page ! 0))"
  by (simp add: run_defs demo_defs)

subsection \<open>C9: of two items with one name the later one stays\<close>

text \<open>
  C9. In every listing function, when the items of the paged sequence each have a
  \<^verbatim>\<open>"name"\<close>, the returned mapping has one entry for each name that occurs, and the
  entry is the last item of the sequence with that name: a later item overwrites an earlier
  one of the same name.
\<close>

theorem listing_last_name_wins:
  assumes "is_listing c" and "sdk_listed (events env c w) = [items]" and "list_all has_name items"
  shows "\<exists>result. outcome env c w = Inr (PDict result)
     \<and> distinct (map fst result)
     \<and> (\<forall>k. map_of result k = map_option PDict (last_named k items))"
proof -
  from index_by_name_empty[OF assms(3)] obtain result where
    r: "index_by_name items [] = Inr result"
      "\<And>k. map_of result k = map_option PDict (last_named k items)"
      "distinct (map fst result)"
    by auto
  have out: "outcome env c w = Inr (PDict result)"
    using listing_run[OF assms(1,2)] r(1) by simp
  from out r(2,3) show ?thesis by blast
qed

theorem listing_last_name_wins_witness:
  "is_listing (Virtual_machines_list_all_call [])
   \<and> sdk_listed (events env_ok (Virtual_machines_list_all_call []) 0) = [demo_page]
   \<and> list_all has_name demo_page
   \<and> (\<exists>result. outcome env_ok (Virtual_machines_list_all_call []) 0 = Inr (PDict result)
        \<and> distinct (map fst result)
        \<and> map_of result (KStr ''web'')
            = Some (PDict [(KStr ''name'', PStr ''web''), (KStr ''id'', PStr ''/groups/b/web'')]))"
proof -
  let ?c = "Virtual_machines_list_all_call []"
  have a: "is_listing ?c" by simp
  have b: "sdk_listed (events env_ok ?c 0) = [demo_page]"
    by (simp add: run_defs demo_defs)
  have c: "list_all has_name demo_page"
    by (simp add: has_name_def item_key_def getitem_def demo_page_def)
  have l: "last_named (KStr ''web'') demo_page
             = Some [(KStr ''name'', PStr ''web''), (KStr ''id'', PStr ''/groups/b/web'')]"
    by (simp add: last_named_def item_key_def getitem_def demo_page_def)
  from listing_last_name_wins[OF a b c] obtain result where
    "outcome env_ok ?c 0 = Inr (PDict result)" "distinct (map fst result)"
    "map_of result (KStr ''web'') = map_option PDict (last_named (KStr ''web'') demo_page)"
    by blast
  with l a b c show ?thesis by auto
qed

subsection \<open>C10: a value that is no list is left alone\<close>

text \<open>
  C10. When \<^verbatim>\<open>"virtual_machines"\<close> is present among the keyword arguments of
  \<^verbatim>\<open>availability_set_create_or_update\<close> and is not a list, no VM lookup is made and the
  object-model builder receives the value as it is. The builder is reached once the client
  factory has returned.
\<close>

theorem non_list_passed_through:
  assumes "map_of kwargs ''virtual_machines'' = Some v" and "\<not> is_list v"
  shows "vm_lookups (events env (Availability_set_create_or_update name g kwargs) w) = []
       \<and> list_all (\<lambda>kw2. map_of kw2 ''virtual_machines'' = Some v)
           (builder_kwargs (events env (Availability_set_create_or_update name g kwargs) w))
       \<and> (client_kwargs (events env (Availability_set_create_or_update name g kwargs) w) \<noteq> []
          \<and> client_raised (events env (Availability_set_create_or_update name g kwargs) w) = []
          \<longrightarrow> length (builder_kwargs (events env (Availability_set_create_or_update name g kwargs) w)) = 1)"
proof -
  let ?evs = "events env (Availability_set_create_or_update name g kwargs) w"
  from create_builder[OF invoke_create[unfolded invoke.simps], of env name g kwargs w]
  consider
    (no_client) "builder_kwargs ?evs = []" "vm_lookups ?evs = []" "client_kwargs ?evs = []"
  | (client_raises) "builder_kwargs ?evs = []" "vm_lookups ?evs = []" "client_raised ?evs \<noteq> []"
  | (lookup_fails) "is_list (the (map_of kwargs ''virtual_machines''))"
  | (built) kw' kw2 where "builder_kwargs ?evs = [kw2]"
      "map_of kw' ''virtual_machines'' = map_of kwargs ''virtual_machines''"
      "linked env kw' (vm_lookups ?evs) kw2"
    by blast
  then show ?thesis
  proof cases
    case lookup_fails
    with assms show ?thesis by simp
  next
    case built
    from built(2,3) assms have "vm_lookups ?evs = [] \<and> kw2 = kw'"
      by (cases v) (auto simp: linked_def)
    with built(1,2) assms(1) show ?thesis by simp
  qed simp_all
qed

theorem non_list_passed_through_witness:
  "map_of [(''virtual_machines'', PStr ''vm1''), (''location'', PStr ''westus'')] ''virtual_machines''
     = Some (PStr ''vm1'')
   \<and> \<not> is_list (PStr ''vm1'')
   \<and> vm_lookups (events env_ok (Availability_set_create_or_update (PStr ''testset'') (PStr ''testgroup'')
         [(''virtual_machines'', PStr ''vm1''), (''location'', PStr ''westus'')]) 0) = []
   \<and> builder_kwargs (events env_ok (Availability_set_create_or_update (PStr ''testset'') (PStr ''testgroup'')
         [(''virtual_machines'', PStr ''vm1''), (''location'', PStr ''westus'')]) 0)
       = [[(''virtual_machines'', PStr ''vm1''), (''location'', PStr ''westus'')]]"
proof -
  let ?kw = "[(''virtual_machines'', PStr ''vm1''), (''location'', PStr ''westus'')]"
  let ?evs = "events env_ok (Availability_set_create_or_update (PStr ''testset'') (PStr ''testgroup'') ?kw) 0"
  have h: "map_of ?kw ''virtual_machines'' = Some (PStr ''vm1'')" by simp
  have n: "\<not> is_list (PStr ''vm1'')" by simp
  have b: "builder_kwargs ?evs = [?kw]"
    by (simp add: run_defs demo_defs)
  from non_list_passed_through[OF h n, of env_ok "PStr ''testset''" "PStr ''testgroup''" 0]
  have "vm_lookups ?evs = []" by blast
  with h n b show ?thesis by simp
qed

end
